theory Spec2Isabelle
  imports Complex_Main "HOL-Library.Sublist"
begin

chapter \<open>The session processing orchestrator of open-mem\<close>

text \<open>
  A shallow embedding of \<^verbatim>\<open>src/services/worker-service.ts\<close> and
  \<^verbatim>\<open>src/services/worker/CodexAgent.ts\<close>. Asynchronous code is modelled by explicit
  state passing: every promise that settles is a step of a function on the shared state,
  and every value the code reads from outside (the clock, the settings, the outcome of an
  extraction agent, the result of a store query) is an input of that function. Calls whose
  order matters are recorded in a trace of events. Calls to the logger are left out.
\<close>

section \<open>Definitions\<close>

subsection \<open>JavaScript strings and thrown values\<close>

text \<open>
  \<^verbatim>\<open>String.prototype.includes\<close>: the pattern occurs as a contiguous run of the string.
\<close>

definition str_includes :: "string \<Rightarrow> string \<Rightarrow> bool" where
  "str_includes s pattern = sublist pattern s"

text \<open>
  \<^verbatim>\<open>String.prototype.toLowerCase\<close> on the ASCII range: the letters A to Z are
  mapped to a to z, every other character is kept.
\<close>

definition toLowerCase_char :: "char \<Rightarrow> char" where
  "toLowerCase_char c =
     (let n = (of_char c :: nat) in if 65 \<le> n \<and> n \<le> 90 then char_of (n + 32) else c)"

definition toLowerCase :: "string \<Rightarrow> string" where
  "toLowerCase s = map toLowerCase_char s"

text \<open>
  A template literal prints a non-negative integer in decimal.
\<close>

definition digit_char :: "nat \<Rightarrow> char" where
  "digit_char d = char_of (48 + d)"

fun decimal :: "nat \<Rightarrow> string" where
  "decimal n = (if n < 10 then [digit_char n] else decimal (n div 10) @ [digit_char (n mod 10)])"

declare decimal.simps [simp del]

text \<open>
  What a \<^verbatim>\<open>catch\<close> receives: an instance of \<^verbatim>\<open>Error\<close> with its name and
  message, or any other value, of which the code reads the \<^verbatim>\<open>message\<close> property
  (absent for a thrown string or number) and \<^verbatim>\<open>String(value)\<close>.
\<close>

datatype thrown =
    ErrorObject string string
  | OtherValue "string option" string

text \<open>\<^verbatim>\<open>(error as Error)?.message || ''\<close>\<close>

fun message_or_empty :: "thrown \<Rightarrow> string" where
  "message_or_empty (ErrorObject name msg) = msg"
| "message_or_empty (OtherValue None str) = []"
| "message_or_empty (OtherValue (Some msg) str) = msg"

text \<open>\<^verbatim>\<open>error instanceof Error ? error.message : String(error)\<close>\<close>

fun message_or_string :: "thrown \<Rightarrow> string" where
  "message_or_string (ErrorObject name msg) = msg"
| "message_or_string (OtherValue m str) = str"

text \<open>
  The truth value JavaScript gives an optional string in a condition: \<^verbatim>\<open>null\<close>,
  \<^verbatim>\<open>undefined\<close> and the empty string are falsy.
\<close>

fun truthy :: "string option \<Rightarrow> bool" where
  "truthy None = False"
| "truthy (Some s) = (s \<noteq> [])"

subsection \<open>buildStatusOutput\<close>

datatype status_kind = status_ready | status_error

record StatusOutput =
  so_continue :: bool
  so_suppressOutput :: bool
  so_status :: status_kind
  so_message :: "string option"

text \<open>
  The spread \<^verbatim>\<open>...(message && { message })\<close> adds the field when the argument is a
  non-empty string, and nothing when it is undefined or empty.
\<close>

definition buildStatusOutput :: "status_kind \<Rightarrow> string option \<Rightarrow> StatusOutput" where
  "buildStatusOutput status message =
     \<lparr> so_continue = True,
       so_suppressOutput = True,
       so_status = status,
       so_message = (if truthy message then message else None) \<rparr>"

subsection \<open>CodexAgent: the token estimate and the truncation of the history\<close>

datatype role = role_user | role_assistant

record ConversationMessage =
  role :: role
  content :: string

definition DEFAULT_MAX_CONTEXT_MESSAGES :: int where
  "DEFAULT_MAX_CONTEXT_MESSAGES = 20"

definition DEFAULT_MAX_ESTIMATED_TOKENS :: int where
  "DEFAULT_MAX_ESTIMATED_TOKENS = 100000"

definition CHARS_PER_TOKEN_ESTIMATE :: nat where
  "CHARS_PER_TOKEN_ESTIMATE = 4"

text \<open>
  \<^verbatim>\<open>Math.ceil(text.length / CHARS_PER_TOKEN_ESTIMATE)\<close>, in integer arithmetic;
  \<open>estimateTokens_ceiling\<close> below shows that it is the ceiling of the quotient.
\<close>

definition estimateTokens :: "string \<Rightarrow> int" where
  "estimateTokens text =
     int ((length text + (CHARS_PER_TOKEN_ESTIMATE - 1)) div CHARS_PER_TOKEN_ESTIMATE)"

subsection \<open>SettingsDefaultsManager\<close>

text \<open>
  A settings object: the value of each property it has. The three defaults that are not
  literals in \<^verbatim>\<open>SettingsDefaultsManager.ts\<close> (the data directory under the home
  directory, and two imported constants) are inputs.
\<close>

type_synonym settings_object = "string \<Rightarrow> string option"

record host_constants =
  data_dir :: string
  DEFAULT_OBSERVATION_TYPES_STRING :: string
  DEFAULT_OBSERVATION_CONCEPTS_STRING :: string

definition DEFAULTS :: "host_constants \<Rightarrow> (string \<times> string) list" where
  "DEFAULTS h =
     [(''CLAUDE_MEM_MODEL'', ''claude-sonnet-4-5''),
      (''CLAUDE_MEM_CONTEXT_OBSERVATIONS'', ''50''),
      (''CLAUDE_MEM_WORKER_PORT'', ''37777''),
      (''CLAUDE_MEM_WORKER_HOST'', ''127.0.0.1''),
      (''CLAUDE_MEM_SKIP_TOOLS'',
         ''ListMcpResourcesTool,SlashCommand,Skill,TodoWrite,AskUserQuestion''),
      (''CLAUDE_MEM_PROVIDER'', ''auto''),
      (''CLAUDE_MEM_CLAUDE_AUTH_METHOD'', ''cli''),
      (''CLAUDE_MEM_GEMINI_API_KEY'', []),
      (''CLAUDE_MEM_GEMINI_MODEL'', ''gemini-2.5-flash-lite''),
      (''CLAUDE_MEM_GEMINI_RATE_LIMITING_ENABLED'', ''true''),
      (''CLAUDE_MEM_OPENROUTER_API_KEY'', []),
      (''CLAUDE_MEM_OPENROUTER_MODEL'', ''xiaomi/mimo-v2-flash:free''),
      (''CLAUDE_MEM_OPENROUTER_SITE_URL'', []),
      (''CLAUDE_MEM_OPENROUTER_APP_NAME'', ''claude-mem''),
      (''CLAUDE_MEM_OPENROUTER_MAX_CONTEXT_MESSAGES'', ''20''),
      (''CLAUDE_MEM_OPENROUTER_MAX_TOKENS'', ''100000''),
      (''CLAUDE_MEM_DATA_DIR'', data_dir h),
      (''CLAUDE_MEM_LOG_LEVEL'', ''INFO''),
      (''CLAUDE_MEM_PYTHON_VERSION'', ''3.13''),
      (''CLAUDE_CODE_PATH'', []),
      (''CLAUDE_MEM_MODE'', ''code''),
      (''CLAUDE_MEM_CONTEXT_SHOW_READ_TOKENS'', ''true''),
      (''CLAUDE_MEM_CONTEXT_SHOW_WORK_TOKENS'', ''true''),
      (''CLAUDE_MEM_CONTEXT_SHOW_SAVINGS_AMOUNT'', ''true''),
      (''CLAUDE_MEM_CONTEXT_SHOW_SAVINGS_PERCENT'', ''true''),
      (''CLAUDE_MEM_CONTEXT_OBSERVATION_TYPES'', DEFAULT_OBSERVATION_TYPES_STRING h),
      (''CLAUDE_MEM_CONTEXT_OBSERVATION_CONCEPTS'', DEFAULT_OBSERVATION_CONCEPTS_STRING h),
      (''CLAUDE_MEM_CONTEXT_FULL_COUNT'', ''5''),
      (''CLAUDE_MEM_CONTEXT_FULL_FIELD'', ''narrative''),
      (''CLAUDE_MEM_CONTEXT_SESSION_COUNT'', ''10''),
      (''CLAUDE_MEM_CONTEXT_SHOW_LAST_SUMMARY'', ''true''),
      (''CLAUDE_MEM_CONTEXT_SHOW_LAST_MESSAGE'', ''false''),
      (''CLAUDE_MEM_FOLDER_CLAUDEMD_ENABLED'', ''false''),
      (''CLAUDE_MEM_EXCLUDED_PROJECTS'', []),
      (''CLAUDE_MEM_FOLDER_MD_EXCLUDE'', ''[]'')]"

text \<open>\<^verbatim>\<open>Object.keys(this.DEFAULTS)\<close>\<close>

definition DEFAULTS_keys :: "host_constants \<Rightarrow> string list" where
  "DEFAULTS_keys h = map fst (DEFAULTS h)"

text \<open>\<^verbatim>\<open>{ ...this.DEFAULTS }\<close>\<close>

definition getAllDefaults :: "host_constants \<Rightarrow> settings_object" where
  "getAllDefaults h = map_of (DEFAULTS h)"

text \<open>
  The loop both \<^verbatim>\<open>applyEnvOverrides\<close> and \<^verbatim>\<open>loadFromFile\<close> run over the keys
  of the defaults: a key takes the value \<open>source\<close> has for it, if it has one.
\<close>

definition copy_defined :: "string list \<Rightarrow> settings_object \<Rightarrow> settings_object \<Rightarrow> settings_object" where
  "copy_defined keys source result =
     foldl (\<lambda>res key. case source key of None \<Rightarrow> res | Some v \<Rightarrow> res(key \<mapsto> v)) result keys"

text \<open>\<open>env\<close> is \<^verbatim>\<open>process.env\<close>.\<close>

definition applyEnvOverrides ::
  "host_constants \<Rightarrow> settings_object \<Rightarrow> settings_object \<Rightarrow> settings_object" where
  "applyEnvOverrides h env settings = copy_defined (DEFAULTS_keys h) env settings"

text \<open>
  The settings file as \<^verbatim>\<open>loadFromFile\<close> finds it: missing; unreadable (reading or
  parsing throws); or parsed, with the properties of the top-level object and those of its
  \<^verbatim>\<open>env\<close> property when that is an object (the old nested schema). Writing the file
  back is left out.
\<close>

datatype settings_file =
    FileMissing
  | FileUnreadable
  | FileParsed settings_object "settings_object option"

definition loadFromFile ::
  "host_constants \<Rightarrow> settings_file \<Rightarrow> settings_object \<Rightarrow> settings_object" where
  "loadFromFile h file env =
     (case file of
        FileMissing \<Rightarrow> applyEnvOverrides h env (getAllDefaults h)
      | FileUnreadable \<Rightarrow> applyEnvOverrides h env (getAllDefaults h)
      | FileParsed flat nested \<Rightarrow>
          (let flatSettings = (case nested of Some e \<Rightarrow> e | None \<Rightarrow> flat);
               result = copy_defined (DEFAULTS_keys h) flatSettings (getAllDefaults h)
           in applyEnvOverrides h env result))"

text \<open>
  Where \<^verbatim>\<open>loadFromFile(USER_SETTINGS_PATH)\<close> reads from: the host's constants, the
  settings file and the environment.
\<close>

record settings_source =
  host :: host_constants
  user_settings_file :: settings_file
  process_env :: settings_object

definition load_user_settings :: "settings_source \<Rightarrow> settings_object" where
  "load_user_settings src = loadFromFile (host src) (user_settings_file src) (process_env src)"

text \<open>
  \<^verbatim>\<open>parseInt(settings.KEY)\<close>: \<open>parseInt\<close> is JavaScript's function on strings, an
  input here, with \<open>None\<close> for NaN; a property the object does not have is
  \<^verbatim>\<open>undefined\<close>, for which \<^verbatim>\<open>parseInt\<close> returns NaN.
\<close>

definition parseInt_property :: "(string \<Rightarrow> int option) \<Rightarrow> settings_object \<Rightarrow> string \<Rightarrow> int option" where
  "parseInt_property parseInt settings key =
     (case settings key of None \<Rightarrow> None | Some s \<Rightarrow> parseInt s)"

text \<open>\<^verbatim>\<open>parseInt(s) || d\<close>: NaN and 0 are falsy, every other number is kept.\<close>

definition or_default :: "int option \<Rightarrow> int \<Rightarrow> int" where
  "or_default parsed d = (case parsed of None \<Rightarrow> d | Some n \<Rightarrow> if n = 0 then d else n)"

definition maxMessages :: "(string \<Rightarrow> int option) \<Rightarrow> settings_object \<Rightarrow> int" where
  "maxMessages parseInt settings =
     or_default (parseInt_property parseInt settings ''CLAUDE_MEM_CODEX_MAX_CONTEXT_MESSAGES'')
       DEFAULT_MAX_CONTEXT_MESSAGES"

definition maxTokens :: "(string \<Rightarrow> int option) \<Rightarrow> settings_object \<Rightarrow> int" where
  "maxTokens parseInt settings =
     or_default (parseInt_property parseInt settings ''CLAUDE_MEM_CODEX_MAX_TOKENS'')
       DEFAULT_MAX_ESTIMATED_TOKENS"

text \<open>\<^verbatim>\<open>history.reduce((sum, m) => sum + this.estimateTokens(m.content), 0)\<close>\<close>

definition totalTokens :: "ConversationMessage list \<Rightarrow> int" where
  "totalTokens history = foldl (\<lambda>sum m. sum + estimateTokens (content m)) 0 history"

text \<open>
  The loop \<^verbatim>\<open>for (let i = history.length - 1; i >= 0; i--)\<close>. Its first argument is
  the part of the history not yet visited, most recent message first; \<open>truncated\<close> and
  \<open>tokenCount\<close> are the loop's variables. \<^verbatim>\<open>break\<close> returns what was kept so far.
\<close>

fun truncate_loop ::
  "int \<Rightarrow> int \<Rightarrow> ConversationMessage list \<Rightarrow> ConversationMessage list \<Rightarrow> int
     \<Rightarrow> ConversationMessage list" where
  "truncate_loop maxM maxT [] truncated tokenCount = truncated"
| "truncate_loop maxM maxT (msg # older) truncated tokenCount =
     (let msgTokens = estimateTokens (content msg) in
      if int (length truncated) \<ge> maxM \<or> tokenCount + msgTokens > maxT then truncated
      else truncate_loop maxM maxT older (msg # truncated) (tokenCount + msgTokens))"

text \<open>
  \<^verbatim>\<open>truncateHistory\<close> loads the settings itself, on every call.
\<close>

definition truncateHistory ::
  "(string \<Rightarrow> int option) \<Rightarrow> settings_source \<Rightarrow> ConversationMessage list
     \<Rightarrow> ConversationMessage list" where
  "truncateHistory parseInt src history =
     (let settings = load_user_settings src;
          maxM = maxMessages parseInt settings;
          maxT = maxTokens parseInt settings
      in if int (length history) \<le> maxM \<and> totalTokens history \<le> maxT
         then history
         else truncate_loop maxM maxT (rev history) [] 0)"

subsection \<open>The store\<close>

text \<open>
  The two tables the orchestrator reads and writes, with the columns its statements name.
  Status columns hold the text the statements compare them with.
\<close>

record sdk_session_row =
  session_id :: nat
  session_status :: string
  started_at_epoch :: int
  completed_at_epoch :: "int option"
  memory_session_id :: "string option"

record pending_message_row =
  message_id :: nat
  session_db_id :: nat
  message_status :: string
  started_processing_at_epoch :: "int option"
  failed_at_epoch :: "int option"

record database =
  sdk_sessions :: "sdk_session_row list"
  pending_messages :: "pending_message_row list"

text \<open>
  \<^verbatim>\<open>SessionStore.updateMemorySessionId\<close>, as compiled in
  \<^verbatim>\<open>plugin/scripts/context-generator.cjs\<close>:
  \<^verbatim>\<open>UPDATE sdk_sessions SET memory_session_id = ? WHERE id = ?\<close>
\<close>

definition updateMemorySessionId :: "nat \<Rightarrow> string option \<Rightarrow> database \<Rightarrow> database" where
  "updateMemorySessionId sid v d =
     d\<lparr>sdk_sessions :=
          map (\<lambda>r. if session_id r = sid then r\<lparr>memory_session_id := v\<rparr> else r) (sdk_sessions d)\<rparr>"

text \<open>
  Modelled from the spec: \<^verbatim>\<open>PendingMessageStore.markAllSessionMessagesAbandoned\<close> is
  not among the sources. Section 4.1: a terminal status for all remaining pending and
  processing messages of the session; the only terminal status of the data model that is
  not success is \<^verbatim>\<open>failed\<close>.
\<close>

definition markAllSessionMessagesAbandoned :: "nat \<Rightarrow> database \<Rightarrow> database" where
  "markAllSessionMessagesAbandoned sid d =
     d\<lparr>pending_messages :=
          map (\<lambda>m. if session_db_id m = sid \<and>
                       (message_status m = ''pending'' \<or> message_status m = ''processing'')
                    then m\<lparr>message_status := ''failed''\<rparr> else m)
              (pending_messages d)\<rparr>"

text \<open>
  Modelled from the spec: \<^verbatim>\<open>PendingMessageStore.resetStaleProcessingMessages\<close> is not
  among the sources. Section 4.1: processing messages whose start timestamp is older than
  the threshold go back to pending, and the threshold 0 means all of them.
\<close>

definition resetStaleProcessingMessages :: "int \<Rightarrow> int \<Rightarrow> database \<Rightarrow> database" where
  "resetStaleProcessingMessages olderThanMs now d =
     d\<lparr>pending_messages :=
          map (\<lambda>m. if message_status m = ''processing'' \<and>
                       (olderThanMs = 0 \<or>
                        (case started_processing_at_epoch m of
                           None \<Rightarrow> False
                         | Some t \<Rightarrow> t < now - olderThanMs))
                    then m\<lparr>message_status := ''pending'', started_processing_at_epoch := None\<rparr>
                    else m)
              (pending_messages d)\<rparr>"

subsection \<open>The shared state of one session\<close>

record AbortController =
  controller_id :: nat
  aborted :: bool

datatype agent = SDKAgent | GeminiAgent | OpenRouterAgent

text \<open>
  The fields of \<^verbatim>\<open>ActiveSession\<close> the two source files read or write. The identity
  of an \<^verbatim>\<open>AbortController\<close> object is the number of its allocation;
  \<open>generatorPromise\<close> is \<open>None\<close> for \<^verbatim>\<open>null\<close> and otherwise names the agent whose
  \<^verbatim>\<open>startSession\<close> promise is attached. The cumulative token counters, which are
  floating point, are left out.
\<close>

record ActiveSession =
  sessionDbId :: nat
  contentSessionId :: string
  memorySessionId :: "string option"
  forceInit :: bool
  abortController :: AbortController
  generatorPromise :: "agent option"
  conversationHistory :: "ConversationMessage list"
  lastPromptNumber :: nat
  processingMessageIds :: "nat list"

datatype event =
    NewAbortController nat
  | GeneratorStarted string agent nat
  | FallbackStarted agent nat
  | FallbackSettled agent "thrown option"
  | UpdateMemorySessionId nat "string option"
  | MarkAllSessionMessagesAbandoned nat
  | RemoveSessionImmediate nat
  | BroadcastSessionCompleted nat
  | BroadcastProcessingStatus
  | RunCodex "ConversationMessage list"
  | ProcessAgentResponse "string option" string
  | FallbackAgentStartSession

text \<open>
  \<open>session\<close> is the session object the processor's closures hold, \<open>registry\<close> the keys
  of the session manager's map, \<open>db\<close> the store, \<open>controllers_allocated\<close> the number of
  \<^verbatim>\<open>AbortController\<close> objects created so far.
\<close>

record world =
  session :: ActiveSession
  registry :: "nat set"
  db :: database
  controllers_allocated :: nat
  trace :: "event list"

definition emit :: "event \<Rightarrow> world \<Rightarrow> world" where
  "emit e w = w\<lparr>trace := trace w @ [e]\<rparr>"

text \<open>\<^verbatim>\<open>session.abortController = new AbortController()\<close>\<close>

definition newAbortController :: "world \<Rightarrow> world" where
  "newAbortController w =
     emit (NewAbortController (controllers_allocated w))
       (w\<lparr>session := (session w)
             \<lparr>abortController := \<lparr>controller_id = controllers_allocated w, aborted = False\<rparr>\<rparr>,
          controllers_allocated := Suc (controllers_allocated w)\<rparr>)"

text \<open>
  \<^verbatim>\<open>this.dbManager.getSessionStore().updateMemorySessionId(sessionDbId, value)\<close>
\<close>

definition store_updateMemorySessionId :: "nat \<Rightarrow> string option \<Rightarrow> world \<Rightarrow> world" where
  "store_updateMemorySessionId sid v w =
     emit (UpdateMemorySessionId sid v) (w\<lparr>db := updateMemorySessionId sid v (db w)\<rparr>)"

text \<open>
  Modelled from the spec: \<^verbatim>\<open>SessionManager.removeSessionImmediate\<close> is not among the
  sources. Section 4.2: remove drops the in-memory context and does not touch persisted
  rows.
\<close>

definition removeSessionImmediate :: "nat \<Rightarrow> world \<Rightarrow> world" where
  "removeSessionImmediate sid w =
     emit (RemoveSessionImmediate sid) (w\<lparr>registry := registry w - {sid}\<rparr>)"

text \<open>
  What one call of an agent's \<^verbatim>\<open>startSession\<close> has done when its promise settles:
  whether it rejected and with what, what it made of the session's memory-session
  identifier and of the store, and whether the session's token was aborted meanwhile.
\<close>

record agent_run =
  run_error :: "thrown option"
  run_memorySessionId :: "string option \<Rightarrow> string option"
  run_db :: "database \<Rightarrow> database"
  run_aborts :: bool

definition apply_run :: "agent_run \<Rightarrow> world \<Rightarrow> world" where
  "apply_run r w =
     w\<lparr>session := (session w)
          \<lparr>memorySessionId := run_memorySessionId r (memorySessionId (session w)),
           abortController := (abortController (session w))
             \<lparr>aborted := aborted (abortController (session w)) \<or> run_aborts r\<rparr>\<rparr>,
       db := run_db r (db w)\<rparr>"

subsection \<open>getActiveAgent\<close>

text \<open>
  What \<^verbatim>\<open>getActiveAgent\<close> reads: the provider setting and the two availability
  checks.
\<close>

record provider_settings =
  CLAUDE_MEM_PROVIDER :: string
  isOpenRouterAvailable :: bool
  isGeminiAvailable :: bool

definition getActiveAgent :: "provider_settings \<Rightarrow> agent" where
  "getActiveAgent settings =
     (if CLAUDE_MEM_PROVIDER settings = ''openrouter''
      then (if isOpenRouterAvailable settings then OpenRouterAgent else SDKAgent)
      else if CLAUDE_MEM_PROVIDER settings = ''gemini''
      then (if isGeminiAvailable settings then GeminiAgent else SDKAgent)
      else if CLAUDE_MEM_PROVIDER settings = ''auto'' \<and> isOpenRouterAvailable settings
      then OpenRouterAgent
      else if CLAUDE_MEM_PROVIDER settings = ''auto'' \<and> isGeminiAvailable settings
      then GeminiAgent
      else SDKAgent)"

subsection \<open>The session processor\<close>

text \<open>
  What the handlers of one settled consumer task read from outside: the availability
  checks and the runs of the two fallback agents, the clock, the count
  \<^verbatim>\<open>getPendingCount(sessionDbId)\<close> returns in the \<^verbatim>\<open>finally\<close> handler, and
  what \<^verbatim>\<open>getActiveAgent\<close> reads if the processor restarts.
\<close>

record environment =
  fallback_isGeminiAvailable :: bool
  gemini_run :: agent_run
  fallback_isOpenRouterAvailable :: bool
  openRouter_run :: agent_run
  date_now :: nat
  pendingCount :: nat
  restart_settings :: provider_settings

text \<open>
  \<^verbatim>\<open>startSessionProcessor\<close> up to the point where the agent's promise, with its two
  handlers, is stored in the session. \<open>session_defined\<close> is false when the argument is
  \<^verbatim>\<open>undefined\<close>.
\<close>

definition startSessionProcessor :: "provider_settings \<Rightarrow> bool \<Rightarrow> string \<Rightarrow> world \<Rightarrow> world" where
  "startSessionProcessor settings session_defined source w =
     (if \<not> session_defined then w
      else
        let agent = getActiveAgent settings;
            w1 = (if aborted (abortController (session w)) then newAbortController w else w);
            w2 = emit (GeneratorStarted source agent (controller_id (abortController (session w1)))) w1
        in w2\<lparr>session := (session w2)\<lparr>generatorPromise := Some agent\<rparr>\<rparr>)"

definition unrecoverablePatterns :: "string list" where
  "unrecoverablePatterns =
     [''Claude executable not found'', ''CLAUDE_CODE_PATH'', ''ENOENT'', ''spawn'']"

text \<open>\<^verbatim>\<open>unrecoverablePatterns.some(pattern => errorMessage.includes(pattern))\<close>\<close>

definition isUnrecoverable :: "string \<Rightarrow> bool" where
  "isUnrecoverable errorMessage =
     list_ex (\<lambda>pattern. str_includes errorMessage pattern) unrecoverablePatterns"

definition isSessionTerminatedError :: "thrown \<Rightarrow> bool" where
  "isSessionTerminatedError err =
     (let msg = message_or_string err;
          normalized = toLowerCase msg
      in str_includes normalized ''process aborted by user'' \<or>
         str_includes normalized ''processtransport'' \<or>
         str_includes normalized ''not ready for writing'' \<or>
         str_includes normalized ''session generator failed'' \<or>
         str_includes normalized ''claude code process'')"

text \<open>
  The condition of the stale-resume branch of the \<^verbatim>\<open>catch\<close> handler.
\<close>

definition isStaleResumeFailure :: "string \<Rightarrow> string option \<Rightarrow> bool" where
  "isStaleResumeFailure errorMessage memoryId =
     ((str_includes errorMessage ''aborted by user'' \<or>
       str_includes errorMessage ''No conversation found'') \<and> truthy memoryId)"

text \<open>
  One \<^verbatim>\<open>await agent.startSession(session, this)\<close> of the fallback: the call, what
  the agent did, and how its promise settled.
\<close>

definition fallback_startSession :: "agent \<Rightarrow> agent_run \<Rightarrow> world \<Rightarrow> world" where
  "fallback_startSession a r w =
     emit (FallbackSettled a (run_error r))
       (apply_run r (emit (FallbackStarted a (controller_id (abortController (session w)))) w))"

definition runFallbackForTerminatedSession :: "environment \<Rightarrow> bool \<Rightarrow> world \<Rightarrow> world" where
  "runFallbackForTerminatedSession env session_defined w =
     (if \<not> session_defined then w
      else
        let sid = sessionDbId (session w);
            w1 = (if \<not> truthy (memorySessionId (session w))
                  then let syntheticId = ''fallback-'' @ decimal sid @ ''-'' @ decimal (date_now env)
                       in store_updateMemorySessionId sid (Some syntheticId)
                            (w\<lparr>session := (session w)\<lparr>memorySessionId := Some syntheticId\<rparr>\<rparr>)
                  else w);
            w2 = (if fallback_isGeminiAvailable env
                  then fallback_startSession GeminiAgent (gemini_run env) w1 else w1)
        in if fallback_isGeminiAvailable env \<and> run_error (gemini_run env) = None then w2
           else
             let w3 = (if fallback_isOpenRouterAvailable env
                       then fallback_startSession OpenRouterAgent (openRouter_run env) w2 else w2)
             in if fallback_isOpenRouterAvailable env \<and> run_error (openRouter_run env) = None then w3
                else
                  let w4 = emit (MarkAllSessionMessagesAbandoned sid)
                             (w3\<lparr>db := markAllSessionMessagesAbandoned sid (db w3)\<rparr>);
                      w5 = removeSessionImmediate sid w4
                  in emit (BroadcastSessionCompleted sid) w5)"

text \<open>How the promise a handler returns has settled.\<close>

datatype settled = Resolved | Rejected thrown

text \<open>
  The \<^verbatim>\<open>catch\<close> handler. The first component of the result is the closure's variable
  \<^verbatim>\<open>hadUnrecoverableError\<close>; \<^verbatim>\<open>throw error\<close> is the result \<open>Rejected\<close>.
\<close>

definition generator_catch :: "environment \<Rightarrow> thrown \<Rightarrow> world \<Rightarrow> bool \<times> settled \<times> world" where
  "generator_catch env err w =
     (let errorMessage = message_or_empty err in
      if isUnrecoverable errorMessage then (True, Resolved, w)
      else if isSessionTerminatedError err
      then (False, Resolved, runFallbackForTerminatedSession env True w)
      else
        (False, Rejected err,
         if isStaleResumeFailure errorMessage (memorySessionId (session w))
         then (let w1 = store_updateMemorySessionId (sessionDbId (session w)) None w
               in w1\<lparr>session := (session w1)\<lparr>memorySessionId := None, forceInit := True\<rparr>\<rparr>)
         else w))"

text \<open>The \<^verbatim>\<open>finally\<close> handler.\<close>

definition generator_finally :: "environment \<Rightarrow> bool \<Rightarrow> world \<Rightarrow> world" where
  "generator_finally env hadUnrecoverableError w =
     (let w1 = w\<lparr>session := (session w)\<lparr>generatorPromise := None\<rparr>\<rparr> in
      if hadUnrecoverableError then emit BroadcastProcessingStatus w1
      else
        emit BroadcastProcessingStatus
          (if pendingCount env > 0
           then startSessionProcessor (restart_settings env) True ''pending-work-restart''
                  (newAbortController w1)
           else w1))"

text \<open>
  The chain \<^verbatim>\<open>agent.startSession(...).catch(...).finally(...)\<close> once the agent's
  promise has settled, resolved (\<open>None\<close>) or rejected with an error.
\<close>

definition generator_settled :: "environment \<Rightarrow> thrown option \<Rightarrow> world \<Rightarrow> settled \<times> world" where
  "generator_settled env outcome w =
     (case outcome of
        None \<Rightarrow> (Resolved, generator_finally env False w)
      | Some err \<Rightarrow>
          (case generator_catch env err w of
             (hadUnrecoverableError, result, w1) \<Rightarrow>
               (result, generator_finally env hadUnrecoverableError w1)))"

text \<open>
  The life of a processor over any number of consumer tasks: each element of the list is one
  task that settles, with what its agent did and what its handlers read. A processor with no
  task attached does nothing; a list that ends while a task is attached leaves that task
  running.
\<close>

record consumer_task =
  task_run :: agent_run
  task_environment :: environment

fun run_processor :: "consumer_task list \<Rightarrow> world \<Rightarrow> world" where
  "run_processor [] w = w"
| "run_processor (t # ts) w =
     (case generatorPromise (session w) of
        None \<Rightarrow> w
      | Some a \<Rightarrow>
          run_processor ts
            (snd (generator_settled (task_environment t) (run_error (task_run t))
                    (apply_run (task_run t) w))))"

text \<open>The number of times the processor has started a consumer task.\<close>

fun is_GeneratorStarted :: "event \<Rightarrow> bool" where
  "is_GeneratorStarted (GeneratorStarted source a c) = True"
| "is_GeneratorStarted e = False"

definition generators_started :: "world \<Rightarrow> nat" where
  "generators_started w = length (filter is_GeneratorStarted (trace w))"

subsection \<open>CodexAgent.startSession\<close>

datatype 'a outcome = Returns 'a | Throws thrown

text \<open>A message the session manager's iterator yields.\<close>

record queue_message =
  persistentId :: nat
  message_type :: string
  prompt_number :: "nat option"
  message_cwd :: "string option"


text \<open>
  What \<^verbatim>\<open>startSession\<close> reads from outside. The prompt builders, \<^verbatim>\<open>isAbortError\<close>
  and \<^verbatim>\<open>shouldFallbackToClaude\<close> are imported from files that are not among the
  sources, and are parameters here; \<open>fallbackAgent\<close> is the run of the agent set by
  \<^verbatim>\<open>setFallbackAgent\<close>, if one was set.
\<close>

record codex_environment =
  findCodexExecutable :: "string outcome"
  codex_date_now :: nat
  settings_from :: settings_source
  js_parseInt :: "string \<Rightarrow> int option"
  buildInitPrompt :: string
  buildContinuationPrompt :: string
  buildObservationPrompt :: "queue_message \<Rightarrow> string"
  buildSummaryPrompt :: "queue_message \<Rightarrow> string"
  isAbortError :: "thrown \<Rightarrow> bool"
  shouldFallbackToClaude :: "thrown \<Rightarrow> bool"
  fallbackAgent :: "agent_run option"

text \<open>\<^verbatim>\<open>session.conversationHistory.push({ role, content })\<close>\<close>

definition push_history :: "role \<Rightarrow> string \<Rightarrow> world \<Rightarrow> world" where
  "push_history r c w =
     w\<lparr>session := (session w)
          \<lparr>conversationHistory := conversationHistory (session w) @ [\<lparr>role = r, content = c\<rparr>]\<rparr>\<rparr>"

text \<open>
  \<^verbatim>\<open>queryCodexWithHistory\<close>: the history is truncated and the Codex CLI is run on it.
  The event holds the truncated history; the reply is the caller's \<open>exchange\<close>.
\<close>

definition queryCodexWithHistory :: "codex_environment \<Rightarrow> world \<Rightarrow> world" where
  "queryCodexWithHistory cenv w =
     emit (RunCodex (truncateHistory (js_parseInt cenv) (settings_from cenv)
                      (conversationHistory (session w)))) w"

text \<open>
  \<^verbatim>\<open>processAgentResponse\<close> is not among the sources; the spec has the Observation or
  Summary written by it, together with marking the message processed (section 4.3). Only
  the call is recorded, with the memory-session identifier the session has at the call.
\<close>

definition processAgentResponse :: "string \<Rightarrow> world \<Rightarrow> world" where
  "processAgentResponse text w = emit (ProcessAgentResponse (memorySessionId (session w)) text) w"










subsection \<open>The recovery pass: processPendingQueues\<close>

definition STALE_SESSION_THRESHOLD_MS :: int where
  "STALE_SESSION_THRESHOLD_MS = 6 * 60 * 60 * 1000"

text \<open>
  \<^verbatim>\<open>SELECT id FROM sdk_sessions WHERE status = 'active' AND started_at_epoch < ?\<close>
\<close>

definition staleSessionIds :: "int \<Rightarrow> database \<Rightarrow> nat list" where
  "staleSessionIds staleThreshold d =
     map session_id
       (filter (\<lambda>r. session_status r = ''active'' \<and> started_at_epoch r < staleThreshold)
          (sdk_sessions d))"

text \<open>
  \<^verbatim>\<open>UPDATE sdk_sessions SET status = 'failed', completed_at_epoch = ? WHERE id IN (...)\<close>
\<close>

definition failSessions :: "int \<Rightarrow> nat list \<Rightarrow> database \<Rightarrow> database" where
  "failSessions now ids d =
     d\<lparr>sdk_sessions :=
          map (\<lambda>r. if session_id r \<in> set ids
                    then r\<lparr>session_status := ''failed'', completed_at_epoch := Some now\<rparr> else r)
              (sdk_sessions d)\<rparr>"

text \<open>
  \<^verbatim>\<open>UPDATE pending_messages SET status = 'failed', failed_at_epoch = ?
  WHERE status = 'pending' AND session_db_id IN (...)\<close>
\<close>

definition failPendingMessages :: "int \<Rightarrow> nat list \<Rightarrow> database \<Rightarrow> database" where
  "failPendingMessages now ids d =
     d\<lparr>pending_messages :=
          map (\<lambda>m. if message_status m = ''pending'' \<and> session_db_id m \<in> set ids
                    then m\<lparr>message_status := ''failed'', failed_at_epoch := Some now\<rparr> else m)
              (pending_messages d)\<rparr>"

text \<open>
  The three statements of the clean-up, in their \<^verbatim>\<open>try\<close> block. The clock is read
  once for the threshold and once for each update. \<open>db_fault\<close> is the number of the
  statement that throws, if one does; the error is logged, and what earlier statements
  wrote stays written.
\<close>

record cleanup_environment =
  now_threshold :: nat
  now_sessions :: nat
  now_messages :: nat
  db_fault :: "nat option"

definition cleanupStaleSessions :: "cleanup_environment \<Rightarrow> database \<Rightarrow> database" where
  "cleanupStaleSessions cl d =
     (let staleThreshold = int (now_threshold cl) - STALE_SESSION_THRESHOLD_MS in
      if db_fault cl = Some 0 then d
      else
        let ids = staleSessionIds staleThreshold d in
        if length ids > 0
        then (if db_fault cl = Some 1 then d
              else let d1 = failSessions (int (now_sessions cl)) ids d in
                   if db_fault cl = Some 2 then d1
                   else failPendingMessages (int (now_messages cl)) ids d1)
        else d)"

text \<open>
  The service as the recovery pass and the start-up see it: the store, for each session
  id in the session manager whether a consumer task is attached
  (\<^verbatim>\<open>existingSession?.generatorPromise\<close>), the two initialization flags, and the
  calls made. At this level \<^verbatim>\<open>startSessionProcessor\<close> is the event of its call; its
  body is the subject of the section on the session processor.
\<close>

datatype service_event =
    ResetStaleProcessingMessages int
  | StartOrphanReaper
  | StartSessionProcessor nat string

record service =
  service_db :: database
  generator_attached :: "nat \<Rightarrow> bool"
  mcpReady :: bool
  initializationCompleteFlag :: bool
  service_trace :: "service_event list"

record recovery_result =
  totalPendingSessions :: nat
  sessionsStarted :: nat
  sessionsSkipped :: nat
  startedSessionIds :: "nat list"

text \<open>
  The loop over the sessions with pending messages. \<open>init_fails\<close> tells for which ids
  \<^verbatim>\<open>initializeSession\<close> throws; the \<^verbatim>\<open>catch\<close> counts such a session as skipped.
\<close>

fun recover_sessions ::
  "nat \<Rightarrow> (nat \<Rightarrow> bool) \<Rightarrow> nat list \<Rightarrow> recovery_result \<times> service \<Rightarrow> recovery_result \<times> service" where
  "recover_sessions sessionLimit init_fails [] (result, sv) = (result, sv)"
| "recover_sessions sessionLimit init_fails (sid # rest) (result, sv) =
     (if sessionsStarted result \<ge> sessionLimit then (result, sv)
      else if generator_attached sv sid
      then recover_sessions sessionLimit init_fails rest
             (result\<lparr>sessionsSkipped := sessionsSkipped result + 1\<rparr>, sv)
      else if init_fails sid
      then recover_sessions sessionLimit init_fails rest
             (result\<lparr>sessionsSkipped := sessionsSkipped result + 1\<rparr>, sv)
      else recover_sessions sessionLimit init_fails rest
             (result\<lparr>sessionsStarted := sessionsStarted result + 1,
                     startedSessionIds := startedSessionIds result @ [sid]\<rparr>,
              sv\<lparr>generator_attached := (generator_attached sv)(sid := True),
                 service_trace := service_trace sv @ [StartSessionProcessor sid ''startup-recovery'']\<rparr>))"

text \<open>
  \<open>sessions_with_pending\<close> is what \<^verbatim>\<open>getSessionsWithPendingMessages()\<close> returns after
  the clean-up.
\<close>

record recovery_environment =
  cleanup :: cleanup_environment
  sessions_with_pending :: "nat list"
  initializeSession_fails :: "nat \<Rightarrow> bool"

definition processPendingQueues ::
  "nat \<Rightarrow> recovery_environment \<Rightarrow> service \<Rightarrow> recovery_result \<times> service" where
  "processPendingQueues sessionLimit renv sv =
     (let sv1 = sv\<lparr>service_db := cleanupStaleSessions (cleanup renv) (service_db sv)\<rparr>;
          orphanedSessionIds = sessions_with_pending renv;
          result = \<lparr>totalPendingSessions = length orphanedSessionIds, sessionsStarted = 0,
                    sessionsSkipped = 0, startedSessionIds = []\<rparr>
      in if length orphanedSessionIds = 0 then (result, sv1)
         else recover_sessions sessionLimit (initializeSession_fails renv) orphanedSessionIds
                (result, sv1))"

subsection \<open>The start of the process: initializeBackground\<close>

text \<open>The awaited steps of \<^verbatim>\<open>initializeBackground\<close> that can throw.\<close>

datatype init_step =
    CleanupOrphanedProcesses
  | LoadMode
  | InitializeDatabase
  | ResetStaleProcessing
  | InitializeSearch
  | ConnectMcp
  | StartReaper

record init_environment =
  init_failure :: "(init_step \<times> thrown) option"
  init_now :: nat
  recovery :: recovery_environment

definition fails_at :: "init_environment \<Rightarrow> init_step \<Rightarrow> bool" where
  "fails_at ienv step = (case init_failure ienv of None \<Rightarrow> False | Some (st, e) \<Rightarrow> st = step)"

definition init_error :: "init_environment \<Rightarrow> thrown option" where
  "init_error ienv = map_option snd (init_failure ienv)"

text \<open>
  The steps in their order. A step that throws ends the function with the error (the
  \<^verbatim>\<open>catch\<close> logs it and throws it again). The recovery pass is started last, and not
  awaited.
\<close>

definition initializeBackground :: "init_environment \<Rightarrow> service \<Rightarrow> thrown option \<times> service" where
  "initializeBackground ienv sv =
     (if fails_at ienv CleanupOrphanedProcesses \<or> fails_at ienv LoadMode \<or>
         fails_at ienv InitializeDatabase \<or> fails_at ienv ResetStaleProcessing
      then (init_error ienv, sv)
      else
        let sv1 = sv\<lparr>service_db := resetStaleProcessingMessages 0 (int (init_now ienv)) (service_db sv),
                     service_trace := service_trace sv @ [ResetStaleProcessingMessages 0]\<rparr>
        in if fails_at ienv InitializeSearch \<or> fails_at ienv ConnectMcp
           then (init_error ienv, sv1)
           else
             let sv2 = sv1\<lparr>mcpReady := True, initializationCompleteFlag := True\<rparr>
             in if fails_at ienv StartReaper then (init_error ienv, sv2)
                else
                  let sv3 = sv2\<lparr>service_trace := service_trace sv2 @ [StartOrphanReaper]\<rparr>
                  in (None, snd (processPendingQueues 50 (recovery ienv) sv3)))"

text \<open>
  In a list of calls, no session processor is started before the reset of all processing
  messages (threshold 0).
\<close>

fun reset_before_processors :: "service_event list \<Rightarrow> bool" where
  "reset_before_processors [] = True"
| "reset_before_processors (ResetStaleProcessingMessages olderThanMs # es) =
     (if olderThanMs = 0 then True else reset_before_processors es)"
| "reset_before_processors (StartSessionProcessor sid source # es) = False"
| "reset_before_processors (StartOrphanReaper # es) = reset_before_processors es"

subsection \<open>Observations on a run\<close>

text \<open>
  The value of the closure's variable \<^verbatim>\<open>hadUnrecoverableError\<close> when the
  \<^verbatim>\<open>finally\<close> handler runs, for a consumer task that resolved (\<open>None\<close>) or rejected.
\<close>

definition hadUnrecoverableError :: "thrown option \<Rightarrow> bool" where
  "hadUnrecoverableError outcome =
     (case outcome of None \<Rightarrow> False | Some err \<Rightarrow> isUnrecoverable (message_or_empty err))"

text \<open>The fallback agents whose \<^verbatim>\<open>startSession\<close> was called, in the order of the calls.\<close>

fun fallback_agents_started :: "event list \<Rightarrow> agent list" where
  "fallback_agents_started [] = []"
| "fallback_agents_started (FallbackStarted a c # es) = a # fallback_agents_started es"
| "fallback_agents_started (e # es) = fallback_agents_started es"


text \<open>No message of the session is left pending or processing.\<close>

definition no_pending_work :: "nat \<Rightarrow> database \<Rightarrow> bool" where
  "no_pending_work sid d =
     list_all (\<lambda>m. session_db_id m \<noteq> sid \<or>
                    (message_status m \<noteq> ''pending'' \<and> message_status m \<noteq> ''processing''))
       (pending_messages d)"

text \<open>
  A session is stale at a threshold when it is active and started before the threshold.
\<close>

definition stale_session :: "int \<Rightarrow> sdk_session_row \<Rightarrow> bool" where
  "stale_session staleThreshold r =
     (session_status r = ''active'' \<and> started_at_epoch r < staleThreshold)"

subsection \<open>Concrete states\<close>

text \<open>
  Session 7 with one consumer task attached, a memory-session identifier, and one pending
  message; the same session before an identifier was assigned; an agent run that resolves
  and changes nothing, and one that rejects.
\<close>

definition example_session :: ActiveSession where
  "example_session =
     \<lparr>sessionDbId = 7, contentSessionId = ''c7'', memorySessionId = Some ''mem-7'',
      forceInit = False, abortController = \<lparr>controller_id = 0, aborted = False\<rparr>,
      generatorPromise = Some SDKAgent, conversationHistory = [], lastPromptNumber = 1,
      processingMessageIds = []\<rparr>"

definition example_db :: database where
  "example_db =
     \<lparr>sdk_sessions =
        [\<lparr>session_id = 7, session_status = ''active'', started_at_epoch = 1000,
          completed_at_epoch = None, memory_session_id = Some ''mem-7''\<rparr>],
      pending_messages =
        [\<lparr>message_id = 1, session_db_id = 7, message_status = ''pending'',
          started_processing_at_epoch = None, failed_at_epoch = None\<rparr>]\<rparr>"

definition example_world :: world where
  "example_world =
     \<lparr>session = example_session, registry = {7}, db = example_db,
      controllers_allocated = 1, trace = [GeneratorStarted ''init'' SDKAgent 0]\<rparr>"


definition quiet_run :: agent_run where
  "quiet_run =
     \<lparr>run_error = None, run_memorySessionId = (\<lambda>m. m), run_db = (\<lambda>d. d), run_aborts = False\<rparr>"

definition failing_run :: agent_run where
  "failing_run = quiet_run\<lparr>run_error := Some (ErrorObject ''Error'' ''fetch failed'')\<rparr>"

definition sdk_only :: provider_settings where
  "sdk_only =
     \<lparr>CLAUDE_MEM_PROVIDER = ''claude'', isOpenRouterAvailable = False, isGeminiAvailable = False\<rparr>"

text \<open>
  Three messages are pending when the task settles. In \<open>no_fallback\<close> neither fallback
  agent is available; in \<open>openRouter_only\<close> Gemini is not and OpenRouter is, and
  resolves.
\<close>

definition no_fallback :: environment where
  "no_fallback =
     \<lparr>fallback_isGeminiAvailable = False, gemini_run = quiet_run,
      fallback_isOpenRouterAvailable = False, openRouter_run = quiet_run,
      date_now = 1700000000000, pendingCount = 3, restart_settings = sdk_only\<rparr>"

definition openRouter_only :: environment where
  "openRouter_only = no_fallback\<lparr>fallback_isOpenRouterAvailable := True\<rparr>"

definition failing_task :: consumer_task where
  "failing_task = \<lparr>task_run = failing_run, task_environment = no_fallback\<rparr>"

definition spawn_error :: thrown where
  "spawn_error = ErrorObject ''Error'' ''spawn codex ENOENT''"


definition terminated_error :: thrown where
  "terminated_error = ErrorObject ''Error'' ''Claude Code process exited with code 1''"


text \<open>
  A settings file that sets the limit on messages to -1, and an environment that sets the
  limit on tokens to 3.
\<close>

text \<open>\<^verbatim>\<open>parseInt\<close> on the strings of the examples; NaN elsewhere.\<close>

definition example_parseInt :: "string \<Rightarrow> int option" where
  "example_parseInt s =
     (if s = ''-1'' then Some (- 1) else if s = ''3'' then Some 3 else None)"

definition settings_with_limits :: settings_source where
  "settings_with_limits =
     \<lparr>host = \<lparr>data_dir = ''/home/u/.claude-mem'', DEFAULT_OBSERVATION_TYPES_STRING = ''bugfix'',
               DEFAULT_OBSERVATION_CONCEPTS_STRING = ''pattern''\<rparr>,
      user_settings_file =
        FileParsed (Map.empty(''CLAUDE_MEM_CODEX_MAX_CONTEXT_MESSAGES'' \<mapsto> ''-1'')) None,
      process_env = Map.empty(''CLAUDE_MEM_CODEX_MAX_TOKENS'' \<mapsto> ''3'')\<rparr>"

text \<open>
  A recovery pass seven hours after session 7 started, with no fault of the store; the
  service with the store of the example and no consumer task attached; a store after a
  crash, with message 2 left processing; and a start of the process in which no step
  throws and session 7 has pending messages.
\<close>

definition seven_hours_later :: cleanup_environment where
  "seven_hours_later =
     \<lparr>now_threshold = 25201000, now_sessions = 25201001, now_messages = 25201002, db_fault = None\<rparr>"

definition example_service :: service where
  "example_service =
     \<lparr>service_db = example_db, generator_attached = (\<lambda>sid. False), mcpReady = False,
      initializationCompleteFlag = False, service_trace = []\<rparr>"

definition example_recovery :: recovery_environment where
  "example_recovery =
     \<lparr>cleanup = seven_hours_later, sessions_with_pending = [],
      initializeSession_fails = (\<lambda>sid. False)\<rparr>"

definition crashed_db :: database where
  "crashed_db =
     \<lparr>sdk_sessions =
        [\<lparr>session_id = 7, session_status = ''active'', started_at_epoch = 25200000,
          completed_at_epoch = None, memory_session_id = Some ''mem-7''\<rparr>],
      pending_messages =
        [\<lparr>message_id = 1, session_db_id = 7, message_status = ''processed'',
          started_processing_at_epoch = Some 25200100, failed_at_epoch = None\<rparr>,
         \<lparr>message_id = 2, session_db_id = 7, message_status = ''processing'',
          started_processing_at_epoch = Some 25200200, failed_at_epoch = None\<rparr>,
         \<lparr>message_id = 3, session_db_id = 7, message_status = ''pending'',
          started_processing_at_epoch = None, failed_at_epoch = None\<rparr>]\<rparr>"

definition crashed_service :: service where
  "crashed_service = example_service\<lparr>service_db := crashed_db\<rparr>"

definition clean_start :: init_environment where
  "clean_start =
     \<lparr>init_failure = None, init_now = 25201000,
      recovery = example_recovery\<lparr>sessions_with_pending := [7]\<rparr>\<rparr>"




section \<open>Theorems\<close>

subsection \<open>buildStatusOutput\<close>

text \<open>
  C10. For both statuses and every optional message, the object buildStatusOutput returns
  has continue and suppressOutput true and the given status; it has a message field exactly
  when the message argument is a non-empty string, and the field then holds that string.
\<close>

theorem buildStatusOutput_fields:
  "so_continue (buildStatusOutput status message) = True \<and>
   so_suppressOutput (buildStatusOutput status message) = True \<and>
   so_status (buildStatusOutput status message) = status \<and>
   ((so_message (buildStatusOutput status message) \<noteq> None) =
      (\<exists>m. message = Some m \<and> m \<noteq> [])) \<and>
   (so_message (buildStatusOutput status message) = None \<or>
      so_message (buildStatusOutput status message) = message)"
  by (cases message) (simp_all add: buildStatusOutput_def)

subsection \<open>The truncation of the history\<close>

lemma estimateTokens_ceiling:
  "estimateTokens text = \<lceil>real (length text) / real CHARS_PER_TOKEN_ESTIMATE\<rceil>"
proof -
  have "\<lceil>real (length text) / real 4\<rceil> = \<lceil>of_int (int (length text)) / (of_int 4 :: real)\<rceil>"
    by simp
  also have "\<dots> = - (- int (length text) div 4)"
    by (rule ceiling_divide_eq_div)
  also have "\<dots> = (int (length text) + 3) div 4"
    by presburger
  also have "\<dots> = int ((length text + 3) div 4)"
    by (simp add: zdiv_int)
  finally show ?thesis
    by (simp add: estimateTokens_def CHARS_PER_TOKEN_ESTIMATE_def)
qed

lemma foldl_tokens_shift:
  "foldl (\<lambda>sum m. sum + estimateTokens (content m)) a history =
   a + sum_list (map (\<lambda>m. estimateTokens (content m)) history)"
  by (induction history arbitrary: a) simp_all

lemma totalTokens_sum_list:
  "totalTokens history = sum_list (map (\<lambda>m. estimateTokens (content m)) history)"
  by (simp add: totalTokens_def foldl_tokens_shift)

lemma totalTokens_Cons:
  "totalTokens (m # ms) = totalTokens ms + estimateTokens (content m)"
  by (simp add: totalTokens_sum_list)

lemma truncate_loop_keeps_recent:
  "\<exists>k. truncate_loop maxM maxT recent truncated tokenCount = rev (take k recent) @ truncated"
proof (induction recent arbitrary: truncated tokenCount)
  case Nil
  show ?case by simp
next
  case (Cons msg older)
  show ?case
  proof (cases "int (length truncated) \<ge> maxM \<or> tokenCount + estimateTokens (content msg) > maxT")
    case True
    then have "truncate_loop maxM maxT (msg # older) truncated tokenCount = rev (take 0 (msg # older)) @ truncated"
      by (simp add: Let_def)
    then show ?thesis by blast
  next
    case False
    obtain k where "truncate_loop maxM maxT older (msg # truncated) (tokenCount + estimateTokens (content msg))
        = rev (take k older) @ msg # truncated"
      using Cons.IH by blast
    with False have "truncate_loop maxM maxT (msg # older) truncated tokenCount = rev (take (Suc k) (msg # older)) @ truncated"
      by (simp add: Let_def)
    then show ?thesis by blast
  qed
qed

lemma truncate_loop_length:
  "int (length truncated) \<le> maxM \<Longrightarrow>
   int (length (truncate_loop maxM maxT recent truncated tokenCount)) \<le> maxM"
  by (induction recent arbitrary: truncated tokenCount) (auto simp: Let_def)

lemma truncate_loop_tokens:
  "tokenCount = totalTokens truncated \<Longrightarrow> tokenCount \<le> maxT \<Longrightarrow>
   totalTokens (truncate_loop maxM maxT recent truncated tokenCount) \<le> maxT"
proof (induction recent arbitrary: truncated tokenCount)
  case Nil
  then show ?case by simp
next
  case (Cons msg older)
  show ?case
  proof (cases "int (length truncated) \<ge> maxM \<or> tokenCount + estimateTokens (content msg) > maxT")
    case True
    then show ?thesis using Cons.prems by (simp add: Let_def)
  next
    case False
    have "tokenCount + estimateTokens (content msg) = totalTokens (msg # truncated)"
      using Cons.prems(1) by (simp add: totalTokens_Cons)
    moreover have "tokenCount + estimateTokens (content msg) \<le> maxT"
      using False by simp
    ultimately have "totalTokens (truncate_loop maxM maxT older (msg # truncated)
        (tokenCount + estimateTokens (content msg))) \<le> maxT"
      by (rule Cons.IH)
    then show ?thesis using False by (simp add: Let_def)
  qed
qed


lemma copy_defined_other:
  "k \<notin> set keys \<Longrightarrow> copy_defined keys source result k = result k"
  unfolding copy_defined_def
  by (induction keys arbitrary: result) (simp_all split: option.splits)

lemma codex_keys_not_in_DEFAULTS:
  "''CLAUDE_MEM_CODEX_MAX_CONTEXT_MESSAGES'' \<notin> set (DEFAULTS_keys h)"
  "''CLAUDE_MEM_CODEX_MAX_TOKENS'' \<notin> set (DEFAULTS_keys h)"
  by (simp_all add: DEFAULTS_keys_def DEFAULTS_def)

lemma getAllDefaults_other: "k \<notin> set (DEFAULTS_keys h) \<Longrightarrow> getAllDefaults h k = None"
  by (simp add: getAllDefaults_def DEFAULTS_keys_def map_of_eq_None_iff)

lemma loadFromFile_other:
  "k \<notin> set (DEFAULTS_keys h) \<Longrightarrow> loadFromFile h sf env k = None"
  by (cases sf)
     (simp_all add: loadFromFile_def applyEnvOverrides_def copy_defined_other getAllDefaults_other
        Let_def)

lemma limits_loaded:
  "maxMessages parseInt (load_user_settings src) = 20"
  "maxTokens parseInt (load_user_settings src) = 100000"
  by (simp_all add: maxMessages_def maxTokens_def parseInt_property_def load_user_settings_def
      loadFromFile_other codex_keys_not_in_DEFAULTS or_default_def
      DEFAULT_MAX_CONTEXT_MESSAGES_def DEFAULT_MAX_ESTIMATED_TOKENS_def)

lemma truncateHistory_loaded:
  "truncateHistory parseInt src history =
     (if int (length history) \<le> 20 \<and> totalTokens history \<le> 100000 then history
      else truncate_loop 20 100000 (rev history) [] 0)"
  by (simp add: truncateHistory_def limits_loaded Let_def)

lemma truncateHistory_suffix: "suffix (truncateHistory parseInt src history) history"
proof (cases "int (length history) \<le> 20 \<and> totalTokens history \<le> 100000")
  case True
  then show ?thesis by (simp add: truncateHistory_loaded)
next
  case False
  obtain k where "truncate_loop 20 100000 (rev history) [] 0 = rev (take k (rev history)) @ []"
    using truncate_loop_keeps_recent by blast
  then have "truncate_loop 20 100000 (rev history) [] 0 = drop (length history - k) history"
    by (simp add: rev_take)
  moreover have "truncateHistory parseInt src history = truncate_loop 20 100000 (rev history) [] 0"
    using False unfolding truncateHistory_loaded by (rule if_not_P)
  ultimately have "truncateHistory parseInt src history = drop (length history - k) history"
    by simp
  then show ?thesis by (simp add: suffix_drop)
qed

lemma single_message_kept:
  "truncateHistory parseInt src [\<lparr>role = role_user, content = ''abcd''\<rparr>] =
     [\<lparr>role = role_user, content = ''abcd''\<rparr>]"
  by (simp add: truncateHistory_loaded totalTokens_def estimateTokens_def
      CHARS_PER_TOKEN_ESTIMATE_def)

text \<open>
  C9. For every history, whatever the settings file and the environment hold, the history
  truncateHistory returns is a suffix of the input, has at most N messages and an
  estimated token sum of at most T, and is the input itself when the input is within both
  limits. The estimate of a message is the ceiling of a quarter of its length. N and T are
  what the function reads from the loaded settings; the loader returns no property outside
  its table of defaults, which has neither of the two keys, so N and T are the defaults 20
  and 100000.
\<close>

theorem truncateHistory_bounded_suffix:
  "let r = truncateHistory parseInt src history;
       N = maxMessages parseInt (load_user_settings src);
       T = maxTokens parseInt (load_user_settings src)
   in suffix r history \<and>
      int (length r) \<le> N \<and>
      totalTokens r \<le> T \<and>
      (if int (length history) \<le> N \<and> totalTokens history \<le> T then r = history else True) \<and>
      totalTokens r = (\<Sum>m\<leftarrow>r. \<lceil>real (length (content m)) / 4\<rceil>) \<and>
      N = 20 \<and> T = 100000"
proof -
  let ?r = "truncateHistory parseInt src history"
  have "int (length (truncate_loop 20 100000 (rev history) [] 0)) \<le> 20"
    by (rule truncate_loop_length) simp
  then have len: "int (length ?r) \<le> 20"
    by (simp add: truncateHistory_loaded)
  have "totalTokens [] = 0" by (simp add: totalTokens_def)
  then have "totalTokens (truncate_loop 20 100000 (rev history) [] 0) \<le> 100000"
    by (intro truncate_loop_tokens) simp_all
  then have tok: "totalTokens ?r \<le> 100000"
    by (simp add: truncateHistory_loaded)
  have same: "if int (length history) \<le> 20 \<and> totalTokens history \<le> 100000
      then ?r = history else True"
    by (simp add: truncateHistory_loaded)
  have est: "totalTokens ?r = (\<Sum>m\<leftarrow>?r. \<lceil>real (length (content m)) / 4\<rceil>)"
    by (simp add: totalTokens_sum_list estimateTokens_ceiling CHARS_PER_TOKEN_ESTIMATE_def)
  show ?thesis
    unfolding Let_def limits_loaded
    using truncateHistory_suffix [of parseInt src history] len tok same est by blast
qed

theorem truncateHistory_bounded_suffix_witness:
  "truncateHistory example_parseInt settings_with_limits
     [\<lparr>role = role_user, content = ''abcd''\<rparr>] =
     [\<lparr>role = role_user, content = ''abcd''\<rparr>] \<and>
   maxMessages example_parseInt (load_user_settings settings_with_limits) = 20 \<and>
   maxTokens example_parseInt (load_user_settings settings_with_limits) = 100000"
  using truncateHistory_bounded_suffix [of example_parseInt settings_with_limits
      "[\<lparr>role = role_user, content = ''abcd''\<rparr>]"]
    single_message_kept [of example_parseInt settings_with_limits]
  by (simp add: Let_def)

subsection \<open>The session processor: what each step changes\<close>

lemma emit_simps [simp]:
  "trace (emit e w) = trace w @ [e]"
  "session (emit e w) = session w"
  "registry (emit e w) = registry w"
  "db (emit e w) = db w"
  "controllers_allocated (emit e w) = controllers_allocated w"
  by (simp_all add: emit_def)

lemma newAbortController_simps [simp]:
  "trace (newAbortController w) = trace w @ [NewAbortController (controllers_allocated w)]"
  "session (newAbortController w) = (session w)
      \<lparr>abortController := \<lparr>controller_id = controllers_allocated w, aborted = False\<rparr>\<rparr>"
  "registry (newAbortController w) = registry w"
  "db (newAbortController w) = db w"
  "controllers_allocated (newAbortController w) = Suc (controllers_allocated w)"
  by (simp_all add: newAbortController_def)

lemma store_updateMemorySessionId_simps [simp]:
  "trace (store_updateMemorySessionId sid v w) = trace w @ [UpdateMemorySessionId sid v]"
  "session (store_updateMemorySessionId sid v w) = session w"
  "registry (store_updateMemorySessionId sid v w) = registry w"
  "db (store_updateMemorySessionId sid v w) = updateMemorySessionId sid v (db w)"
  "controllers_allocated (store_updateMemorySessionId sid v w) = controllers_allocated w"
  by (simp_all add: store_updateMemorySessionId_def)

lemma removeSessionImmediate_simps [simp]:
  "trace (removeSessionImmediate sid w) = trace w @ [RemoveSessionImmediate sid]"
  "session (removeSessionImmediate sid w) = session w"
  "registry (removeSessionImmediate sid w) = registry w - {sid}"
  "db (removeSessionImmediate sid w) = db w"
  "controllers_allocated (removeSessionImmediate sid w) = controllers_allocated w"
  by (simp_all add: removeSessionImmediate_def)

lemma apply_run_simps [simp]:
  "trace (apply_run r w) = trace w"
  "memorySessionId (session (apply_run r w)) = run_memorySessionId r (memorySessionId (session w))"
  "sessionDbId (session (apply_run r w)) = sessionDbId (session w)"
  "generatorPromise (session (apply_run r w)) = generatorPromise (session w)"
  "controller_id (abortController (session (apply_run r w))) = controller_id (abortController (session w))"
  "aborted (abortController (session (apply_run r w))) = (aborted (abortController (session w)) \<or> run_aborts r)"
  "registry (apply_run r w) = registry w"
  "db (apply_run r w) = run_db r (db w)"
  "controllers_allocated (apply_run r w) = controllers_allocated w"
  by (simp_all add: apply_run_def)

lemma fallback_startSession_simps [simp]:
  "trace (fallback_startSession a r w) =
     trace w @ [FallbackStarted a (controller_id (abortController (session w))), FallbackSettled a (run_error r)]"
  "memorySessionId (session (fallback_startSession a r w)) = run_memorySessionId r (memorySessionId (session w))"
  "sessionDbId (session (fallback_startSession a r w)) = sessionDbId (session w)"
  "generatorPromise (session (fallback_startSession a r w)) = generatorPromise (session w)"
  "controller_id (abortController (session (fallback_startSession a r w))) = controller_id (abortController (session w))"
  "aborted (abortController (session (fallback_startSession a r w))) = (aborted (abortController (session w)) \<or> run_aborts r)"
  "registry (fallback_startSession a r w) = registry w"
  "db (fallback_startSession a r w) = run_db r (db w)"
  "controllers_allocated (fallback_startSession a r w) = controllers_allocated w"
  by (simp_all add: fallback_startSession_def)

text \<open>The fallback: what it leaves alone.\<close>

lemma runFallback_keeps:
  "generatorPromise (session (runFallbackForTerminatedSession env b w)) = generatorPromise (session w)"
  "controller_id (abortController (session (runFallbackForTerminatedSession env b w))) = controller_id (abortController (session w))"
  "sessionDbId (session (runFallbackForTerminatedSession env b w)) = sessionDbId (session w)"
  "controllers_allocated (runFallbackForTerminatedSession env b w) = controllers_allocated w"
  "filter is_GeneratorStarted (trace (runFallbackForTerminatedSession env b w)) = filter is_GeneratorStarted (trace w)"
  by (simp_all add: runFallbackForTerminatedSession_def Let_def)

lemma catch_keeps:
  "generatorPromise (session (snd (snd (generator_catch env err w)))) = generatorPromise (session w)"
  "controller_id (abortController (session (snd (snd (generator_catch env err w))))) = controller_id (abortController (session w))"
  "sessionDbId (session (snd (snd (generator_catch env err w)))) = sessionDbId (session w)"
  "controllers_allocated (snd (snd (generator_catch env err w))) = controllers_allocated w"
  "filter is_GeneratorStarted (trace (snd (snd (generator_catch env err w)))) = filter is_GeneratorStarted (trace w)"
  by (simp_all add: generator_catch_def Let_def runFallback_keeps)

lemma catch_flag: "fst (generator_catch env err w) = isUnrecoverable (message_or_empty err)"
  by (simp add: generator_catch_def Let_def)

lemma finally_no_restart:
  "had \<or> pendingCount env = 0 \<Longrightarrow>
   generator_finally env had w =
     emit BroadcastProcessingStatus (w\<lparr>session := (session w)\<lparr>generatorPromise := None\<rparr>\<rparr>)"
  by (auto simp: generator_finally_def Let_def)

lemma finally_restart:
  "\<not> had \<Longrightarrow> 0 < pendingCount env \<Longrightarrow>
   generator_finally env had w =
     (let c = controllers_allocated w; a = getActiveAgent (restart_settings env) in
      w\<lparr>session := (session w)\<lparr>generatorPromise := Some a,
            abortController := \<lparr>controller_id = c, aborted = False\<rparr>\<rparr>,
        controllers_allocated := Suc c,
        trace := trace w @ [NewAbortController c, GeneratorStarted ''pending-work-restart'' a c,
                            BroadcastProcessingStatus]\<rparr>)"
  by (simp add: generator_finally_def Let_def startSessionProcessor_def newAbortController_def emit_def)

lemma settled_split:
  "generator_settled env outcome w =
     (case outcome of None \<Rightarrow> (Resolved, generator_finally env False w)
      | Some err \<Rightarrow> (fst (snd (generator_catch env err w)),
           generator_finally env (isUnrecoverable (message_or_empty err)) (snd (snd (generator_catch env err w)))))"
proof (cases outcome)
  case None
  then show ?thesis by (simp add: generator_settled_def)
next
  case (Some err)
  obtain h r w1 where c: "generator_catch env err w = (h, r, w1)"
    by (cases "generator_catch env err w") auto
  with catch_flag [of env err w] have "h = isUnrecoverable (message_or_empty err)" by simp
  with c Some show ?thesis by (simp add: generator_settled_def)
qed


lemma spawn_error_class: "str_includes (message_or_empty spawn_error) ''ENOENT''"
  by code_simp


lemma terminated_error_class:
  "\<not> isUnrecoverable (message_or_empty terminated_error) \<and> isSessionTerminatedError terminated_error"
  by code_simp


lemma example_world_simps:
  "memorySessionId (session example_world) = Some ''mem-7''"
  "sessionDbId (session example_world) = 7"
  "generatorPromise (session example_world) = Some SDKAgent"
  "abortController (session example_world) = \<lparr>controller_id = 0, aborted = False\<rparr>"
  "controllers_allocated example_world = 1"
  "registry example_world = {7}"
  "trace example_world = [GeneratorStarted ''init'' SDKAgent 0]"
  "db example_world = example_db"
  by (simp_all add: example_world_def example_session_def)

lemma no_fallback_simps:
  "fallback_isGeminiAvailable no_fallback = False"
  "fallback_isOpenRouterAvailable no_fallback = False"
  "pendingCount no_fallback = 3"
  "restart_settings no_fallback = sdk_only"
  "date_now no_fallback = 1700000000000"
  "gemini_run no_fallback = quiet_run"
  "openRouter_run no_fallback = quiet_run"
  by (simp_all add: no_fallback_def)

lemma settled_restart:
  assumes "\<not> hadUnrecoverableError outcome" and "0 < pendingCount env"
  shows "\<exists>w1. controllers_allocated w1 = controllers_allocated w \<and>
              filter is_GeneratorStarted (trace w1) = filter is_GeneratorStarted (trace w) \<and>
              snd (generator_settled env outcome w) =
                w1\<lparr>session := (session w1)\<lparr>generatorPromise := Some (getActiveAgent (restart_settings env)),
                      abortController := \<lparr>controller_id = controllers_allocated w, aborted = False\<rparr>\<rparr>,
                    controllers_allocated := Suc (controllers_allocated w),
                    trace := trace w1 @ [NewAbortController (controllers_allocated w),
                               GeneratorStarted ''pending-work-restart'' (getActiveAgent (restart_settings env)) (controllers_allocated w),
                               BroadcastProcessingStatus]\<rparr>"
proof (cases outcome)
  case None
  then show ?thesis
    using assms(2) by (intro exI [of _ w]) (simp add: settled_split finally_restart Let_def)
next
  case (Some err)
  with assms(1) have nu: "\<not> isUnrecoverable (message_or_empty err)"
    by (simp add: hadUnrecoverableError_def)
  show ?thesis
    using assms(2) nu Some
    by (intro exI [of _ "snd (snd (generator_catch env err w))"])
       (simp add: settled_split finally_restart Let_def catch_keeps)
qed

lemma generators_started_settled:
  "generators_started (snd (generator_settled env outcome w)) =
     (if \<not> hadUnrecoverableError outcome \<and> 0 < pendingCount env
      then Suc (generators_started w) else generators_started w)"
proof (cases "\<not> hadUnrecoverableError outcome \<and> 0 < pendingCount env")
  case True
  then obtain w1 where "filter is_GeneratorStarted (trace w1) = filter is_GeneratorStarted (trace w)"
    and "snd (generator_settled env outcome w) =
                w1\<lparr>session := (session w1)\<lparr>generatorPromise := Some (getActiveAgent (restart_settings env)),
                      abortController := \<lparr>controller_id = controllers_allocated w, aborted = False\<rparr>\<rparr>,
                    controllers_allocated := Suc (controllers_allocated w),
                    trace := trace w1 @ [NewAbortController (controllers_allocated w),
                               GeneratorStarted ''pending-work-restart'' (getActiveAgent (restart_settings env)) (controllers_allocated w),
                               BroadcastProcessingStatus]\<rparr>"
    using settled_restart by blast
  with True show ?thesis by (simp add: generators_started_def)
next
  case False
  then have "hadUnrecoverableError outcome \<or> pendingCount env = 0" by auto
  then have "isUnrecoverable (message_or_empty err) \<or> pendingCount env = 0" if "outcome = Some err" for err
    using that by (auto simp: hadUnrecoverableError_def)
  then show ?thesis
    using False
    by (cases outcome)
       (auto simp: settled_split finally_no_restart hadUnrecoverableError_def generators_started_def catch_keeps)
qed

lemma generatorPromise_settled:
  "generatorPromise (session (snd (generator_settled env outcome w))) =
     (if \<not> hadUnrecoverableError outcome \<and> 0 < pendingCount env
      then Some (getActiveAgent (restart_settings env)) else None)"
proof (cases "\<not> hadUnrecoverableError outcome \<and> 0 < pendingCount env")
  case True
  then obtain w1 where
    "snd (generator_settled env outcome w) =
                w1\<lparr>session := (session w1)\<lparr>generatorPromise := Some (getActiveAgent (restart_settings env)),
                      abortController := \<lparr>controller_id = controllers_allocated w, aborted = False\<rparr>\<rparr>,
                    controllers_allocated := Suc (controllers_allocated w),
                    trace := trace w1 @ [NewAbortController (controllers_allocated w),
                               GeneratorStarted ''pending-work-restart'' (getActiveAgent (restart_settings env)) (controllers_allocated w),
                               BroadcastProcessingStatus]\<rparr>"
    using settled_restart by blast
  with True show ?thesis by simp
next
  case False
  then have "isUnrecoverable (message_or_empty err) \<or> pendingCount env = 0" if "outcome = Some err" for err
    using that by (auto simp: hadUnrecoverableError_def)
  then show ?thesis
    using False
    by (cases outcome)
       (auto simp: settled_split finally_no_restart hadUnrecoverableError_def)
qed

lemma run_processor_restarts:
  "(\<forall>t\<in>set ts. \<not> hadUnrecoverableError (run_error (task_run t)) \<and> 0 < pendingCount (task_environment t)) \<Longrightarrow>
   generatorPromise (session w) \<noteq> None \<Longrightarrow>
   generators_started (run_processor ts w) = generators_started w + length ts \<and>
   generatorPromise (session (run_processor ts w)) \<noteq> None"
proof (induction ts arbitrary: w)
  case Nil
  then show ?case by simp
next
  case (Cons t ts)
  let ?w1 = "snd (generator_settled (task_environment t) (run_error (task_run t)) (apply_run (task_run t) w))"
  from Cons.prems have t: "\<not> hadUnrecoverableError (run_error (task_run t))" "0 < pendingCount (task_environment t)"
    by simp_all
  have p: "generatorPromise (session ?w1) \<noteq> None"
    using t by (simp add: generatorPromise_settled)
  have "generators_started (apply_run (task_run t) w) = generators_started w"
    by (simp add: generators_started_def)
  then have g: "generators_started ?w1 = Suc (generators_started w)"
    using t by (simp add: generators_started_settled)
  have "generators_started (run_processor ts ?w1) = generators_started ?w1 + length ts \<and>
        generatorPromise (session (run_processor ts ?w1)) \<noteq> None"
    using Cons.prems(1) p by (intro Cons.IH) simp_all
  moreover obtain a where "generatorPromise (session w) = Some a"
    using Cons.prems(2) by auto
  ultimately show ?case using g by simp
qed




lemma quiet_run_simps:
  "run_error quiet_run = None" "run_memorySessionId quiet_run m = m" "run_db quiet_run d = d"
  "run_aborts quiet_run = False"
  by (simp_all add: quiet_run_def)

lemma fallback_agents_started_append [simp]:
  "fallback_agents_started (xs @ ys) = fallback_agents_started xs @ fallback_agents_started ys"
  by (induction xs rule: fallback_agents_started.induct) simp_all

lemma markAll_no_pending_work: "no_pending_work sid (markAllSessionMessagesAbandoned sid d)"
proof -
  have "list_all (\<lambda>m. session_db_id m \<noteq> sid \<or>
                    (message_status m \<noteq> ''pending'' \<and> message_status m \<noteq> ''processing''))
          (map (\<lambda>m. if session_db_id m = sid \<and>
                       (message_status m = ''pending'' \<or> message_status m = ''processing'')
                    then m\<lparr>message_status := ''failed''\<rparr> else m) ms)" for ms
    by (induction ms) simp_all
  then show ?thesis
    by (simp add: no_pending_work_def markAllSessionMessagesAbandoned_def)
qed

lemma catch_terminated:
  "\<not> isUnrecoverable (message_or_empty err) \<Longrightarrow> isSessionTerminatedError err \<Longrightarrow>
   generator_catch env err w = (False, Resolved, runFallbackForTerminatedSession env True w)"
  by (simp add: generator_catch_def Let_def)

lemma runFallback_agents:
  "fallback_agents_started (trace (runFallbackForTerminatedSession env True w)) =
     fallback_agents_started (trace w) @
     (if fallback_isGeminiAvailable env then [GeminiAgent] else []) @
     (if \<not> (fallback_isGeminiAvailable env \<and> run_error (gemini_run env) = None) \<and>
         fallback_isOpenRouterAvailable env
      then [OpenRouterAgent] else [])"
  by (simp add: runFallbackForTerminatedSession_def Let_def)

lemma runFallback_served:
  assumes "(fallback_isGeminiAvailable env \<and> run_error (gemini_run env) = None) \<or>
           (fallback_isOpenRouterAvailable env \<and> run_error (openRouter_run env) = None)"
  shows "registry (runFallbackForTerminatedSession env True w) = registry w \<and>
         MarkAllSessionMessagesAbandoned (sessionDbId (session w))
           \<notin> set (drop (length (trace w)) (trace (runFallbackForTerminatedSession env True w))) \<and>
         RemoveSessionImmediate (sessionDbId (session w))
           \<notin> set (drop (length (trace w)) (trace (runFallbackForTerminatedSession env True w)))"
  using assms by (auto simp: runFallbackForTerminatedSession_def Let_def)

lemma runFallback_abandoned:
  assumes "\<not> (fallback_isGeminiAvailable env \<and> run_error (gemini_run env) = None)"
    and "\<not> (fallback_isOpenRouterAvailable env \<and> run_error (openRouter_run env) = None)"
  shows "sessionDbId (session w) \<notin> registry (runFallbackForTerminatedSession env True w) \<and>
         no_pending_work (sessionDbId (session w)) (db (runFallbackForTerminatedSession env True w)) \<and>
         (\<exists>d. db (runFallbackForTerminatedSession env True w) =
                markAllSessionMessagesAbandoned (sessionDbId (session w)) d) \<and>
         (\<exists>earlier. trace (runFallbackForTerminatedSession env True w) =
            earlier @ [MarkAllSessionMessagesAbandoned (sessionDbId (session w)),
                       RemoveSessionImmediate (sessionDbId (session w)),
                       BroadcastSessionCompleted (sessionDbId (session w))])"
  using assms
  by (auto simp: runFallbackForTerminatedSession_def Let_def markAll_no_pending_work)

lemma openRouter_only_simps:
  "fallback_isGeminiAvailable openRouter_only = False"
  "fallback_isOpenRouterAvailable openRouter_only = True"
  "openRouter_run openRouter_only = quiet_run"
  "gemini_run openRouter_only = quiet_run"
  by (simp_all add: openRouter_only_def no_fallback_def)

lemma failing_run_class: "\<not> hadUnrecoverableError (run_error failing_run)"
  by code_simp







subsection \<open>Fatal configuration errors\<close>

text \<open>
  C1. When the consumer task rejects with an error whose message contains one of the four
  unrecoverable patterns, the chain resolves, no consumer task is attached or started
  afterwards and the token is left as it is, whatever the count of pending messages.
\<close>

theorem fatal_configuration_error_no_restart:
  assumes "str_includes (message_or_empty err) ''Claude executable not found'' \<or>
           str_includes (message_or_empty err) ''CLAUDE_CODE_PATH'' \<or>
           str_includes (message_or_empty err) ''ENOENT'' \<or>
           str_includes (message_or_empty err) ''spawn''"
  shows "fst (generator_settled env (Some err) w) = Resolved \<and>
         generatorPromise (session (snd (generator_settled env (Some err) w))) = None \<and>
         generators_started (snd (generator_settled env (Some err) w)) = generators_started w \<and>
         abortController (session (snd (generator_settled env (Some err) w))) = abortController (session w) \<and>
         trace (snd (generator_settled env (Some err) w)) = trace w @ [BroadcastProcessingStatus]"
proof -
  from assms have u: "isUnrecoverable (message_or_empty err)"
    by (auto simp: isUnrecoverable_def unrecoverablePatterns_def)
  then have c: "generator_catch env err w = (True, Resolved, w)"
    by (simp add: generator_catch_def)
  then have "generator_settled env (Some err) w =
      (Resolved, emit BroadcastProcessingStatus (w\<lparr>session := (session w)\<lparr>generatorPromise := None\<rparr>\<rparr>))"
    by (simp add: generator_settled_def finally_no_restart)
  then show ?thesis by (simp add: generators_started_def)
qed

theorem fatal_configuration_error_no_restart_witness:
  "str_includes (message_or_empty spawn_error) ''ENOENT'' \<and>
   0 < pendingCount no_fallback \<and>
   generatorPromise (session (snd (generator_settled no_fallback (Some spawn_error) example_world))) = None \<and>
   generators_started (snd (generator_settled no_fallback (Some spawn_error) example_world)) =
     generators_started example_world"
  using fatal_configuration_error_no_restart [of spawn_error no_fallback example_world]
    spawn_error_class
  by (simp add: no_fallback_simps)

subsection \<open>Restart on pending work\<close>

text \<open>
  C4. When the consumer task settles without an unrecoverable error (it resolved, or it
  rejected with any other error, after the fallback if there was one) and the count of
  pending messages is positive, a new token is allocated, different from the session's
  previous one and not aborted, and a consumer task is started with it. No counter bounds
  this: over any number of consumer tasks that each settle so, every one is followed by
  a restart.
\<close>

theorem pending_work_restarts_with_fresh_token:
  "(\<not> hadUnrecoverableError outcome \<and> 0 < pendingCount env \<and>
    controller_id (abortController (session w)) < controllers_allocated w \<longrightarrow>
      (let w' = snd (generator_settled env outcome w);
           agent = getActiveAgent (restart_settings env);
           token = controllers_allocated w
       in generators_started w' = Suc (generators_started w) \<and>
          generatorPromise (session w') = Some agent \<and>
          abortController (session w') = \<lparr>controller_id = token, aborted = False\<rparr> \<and>
          controller_id (abortController (session w')) \<noteq> controller_id (abortController (session w)) \<and>
          (\<exists>earlier. trace w' = earlier @ [NewAbortController token,
                         GeneratorStarted ''pending-work-restart'' agent token,
                         BroadcastProcessingStatus]))) \<and>
   ((\<forall>t\<in>set ts. \<not> hadUnrecoverableError (run_error (task_run t)) \<and>
                 0 < pendingCount (task_environment t)) \<and>
    generatorPromise (session w) \<noteq> None \<longrightarrow>
      generators_started (run_processor ts w) = generators_started w + length ts \<and>
      generatorPromise (session (run_processor ts w)) \<noteq> None)"
proof (intro conjI impI)
  assume a: "\<not> hadUnrecoverableError outcome \<and> 0 < pendingCount env \<and>
    controller_id (abortController (session w)) < controllers_allocated w"
  then obtain w1 where "controllers_allocated w1 = controllers_allocated w"
    and "snd (generator_settled env outcome w) =
                w1\<lparr>session := (session w1)\<lparr>generatorPromise := Some (getActiveAgent (restart_settings env)),
                      abortController := \<lparr>controller_id = controllers_allocated w, aborted = False\<rparr>\<rparr>,
                    controllers_allocated := Suc (controllers_allocated w),
                    trace := trace w1 @ [NewAbortController (controllers_allocated w),
                               GeneratorStarted ''pending-work-restart'' (getActiveAgent (restart_settings env)) (controllers_allocated w),
                               BroadcastProcessingStatus]\<rparr>"
    using settled_restart by blast
  with a show "let w' = snd (generator_settled env outcome w);
           agent = getActiveAgent (restart_settings env);
           token = controllers_allocated w
       in generators_started w' = Suc (generators_started w) \<and>
          generatorPromise (session w') = Some agent \<and>
          abortController (session w') = \<lparr>controller_id = token, aborted = False\<rparr> \<and>
          controller_id (abortController (session w')) \<noteq> controller_id (abortController (session w)) \<and>
          (\<exists>earlier. trace w' = earlier @ [NewAbortController token,
                         GeneratorStarted ''pending-work-restart'' agent token,
                         BroadcastProcessingStatus])"
    using generators_started_settled [of env outcome w]
    by (simp add: Let_def)
next
  assume "(\<forall>t\<in>set ts. \<not> hadUnrecoverableError (run_error (task_run t)) \<and>
                 0 < pendingCount (task_environment t)) \<and>
    generatorPromise (session w) \<noteq> None"
  then show "generators_started (run_processor ts w) = generators_started w + length ts"
    and "generatorPromise (session (run_processor ts w)) \<noteq> None"
    using run_processor_restarts [of ts w] by simp_all
qed

theorem pending_work_restarts_with_fresh_token_witness:
  "\<not> hadUnrecoverableError (run_error failing_run) \<and> 0 < pendingCount no_fallback \<and>
   controller_id (abortController (session example_world)) < controllers_allocated example_world \<and>
   generatorPromise (session example_world) \<noteq> None \<and>
   generators_started (snd (generator_settled no_fallback (run_error failing_run) example_world)) =
     Suc (generators_started example_world) \<and>
   abortController (session (snd (generator_settled no_fallback (run_error failing_run) example_world))) =
     \<lparr>controller_id = 1, aborted = False\<rparr> \<and>
   generators_started (run_processor [failing_task, failing_task, failing_task] example_world) =
     generators_started example_world + 3"
  using pending_work_restarts_with_fresh_token
    [of "run_error failing_run" no_fallback example_world "[failing_task, failing_task, failing_task]"]
    failing_run_class
  by (simp add: no_fallback_simps example_world_simps Let_def failing_task_def)

subsection \<open>Abort errors\<close>




subsection \<open>The memory-session identifier\<close>




subsection \<open>The fallback chain\<close>

text \<open>
  C2, as amended. When the consumer task rejects with a session-terminated error (one with
  no unrecoverable pattern), the handler runs the fallback. Gemini is started first, if it
  is available; OpenRouter is started exactly when Gemini was unavailable or rejected and
  OpenRouter is itself available. If one of them resolved, the session stays registered
  and nothing is abandoned. Otherwise all pending and processing messages of the session
  are marked abandoned and the session is removed from the registry.
\<close>

theorem fallback_order_and_abandonment:
  assumes "\<not> isUnrecoverable (message_or_empty err)" and "isSessionTerminatedError err"
  shows "let w' = runFallbackForTerminatedSession env True w;
             sid = sessionDbId (session w);
             gemini_ok = (fallback_isGeminiAvailable env \<and> run_error (gemini_run env) = None);
             openRouter_tried = (\<not> gemini_ok \<and> fallback_isOpenRouterAvailable env);
             openRouter_ok = (openRouter_tried \<and> run_error (openRouter_run env) = None)
         in generator_catch env err w = (False, Resolved, w') \<and>
            fallback_agents_started (trace w') =
              fallback_agents_started (trace w) @
              (if fallback_isGeminiAvailable env then [GeminiAgent] else []) @
              (if openRouter_tried then [OpenRouterAgent] else []) \<and>
            (if gemini_ok \<or> openRouter_ok
             then registry w' = registry w \<and>
                  MarkAllSessionMessagesAbandoned sid \<notin> set (drop (length (trace w)) (trace w')) \<and>
                  RemoveSessionImmediate sid \<notin> set (drop (length (trace w)) (trace w'))
             else sid \<notin> registry w' \<and>
                  no_pending_work sid (db w') \<and>
                  (\<exists>d. db w' = markAllSessionMessagesAbandoned sid d) \<and>
                  (\<exists>earlier. trace w' =
                     earlier @ [MarkAllSessionMessagesAbandoned sid, RemoveSessionImmediate sid,
                                BroadcastSessionCompleted sid]))"
proof -
  let ?w' = "runFallbackForTerminatedSession env True w"
  let ?sid = "sessionDbId (session w)"
  let ?gok = "fallback_isGeminiAvailable env \<and> run_error (gemini_run env) = None"
  let ?tried = "\<not> ?gok \<and> fallback_isOpenRouterAvailable env"
  let ?ook = "?tried \<and> run_error (openRouter_run env) = None"
  have caught: "generator_catch env err w = (False, Resolved, ?w')"
    using assms by (rule catch_terminated)
  have agents: "fallback_agents_started (trace ?w') =
      fallback_agents_started (trace w) @
      (if fallback_isGeminiAvailable env then [GeminiAgent] else []) @
      (if ?tried then [OpenRouterAgent] else [])"
    by (rule runFallback_agents)
  have rest: "if ?gok \<or> ?ook
      then registry ?w' = registry w \<and>
           MarkAllSessionMessagesAbandoned ?sid \<notin> set (drop (length (trace w)) (trace ?w')) \<and>
           RemoveSessionImmediate ?sid \<notin> set (drop (length (trace w)) (trace ?w'))
      else ?sid \<notin> registry ?w' \<and>
           no_pending_work ?sid (db ?w') \<and>
           (\<exists>d. db ?w' = markAllSessionMessagesAbandoned ?sid d) \<and>
           (\<exists>earlier. trace ?w' =
              earlier @ [MarkAllSessionMessagesAbandoned ?sid, RemoveSessionImmediate ?sid,
                         BroadcastSessionCompleted ?sid])"
  proof (cases "?gok \<or> ?ook")
    case True
    then have "?gok \<or> (fallback_isOpenRouterAvailable env \<and> run_error (openRouter_run env) = None)"
      by blast
    then have served: "registry ?w' = registry w \<and>
           MarkAllSessionMessagesAbandoned ?sid \<notin> set (drop (length (trace w)) (trace ?w')) \<and>
           RemoveSessionImmediate ?sid \<notin> set (drop (length (trace w)) (trace ?w'))"
      by (rule runFallback_served)
    show ?thesis
      unfolding if_P [OF True] by (rule served)
  next
    case False
    then have f1: "\<not> ?gok"
      and f2: "\<not> (fallback_isOpenRouterAvailable env \<and> run_error (openRouter_run env) = None)"
      by blast+
    have abandoned: "?sid \<notin> registry ?w' \<and>
           no_pending_work ?sid (db ?w') \<and>
           (\<exists>d. db ?w' = markAllSessionMessagesAbandoned ?sid d) \<and>
           (\<exists>earlier. trace ?w' =
              earlier @ [MarkAllSessionMessagesAbandoned ?sid, RemoveSessionImmediate ?sid,
                         BroadcastSessionCompleted ?sid])"
      using f1 f2 by (rule runFallback_abandoned)
    show ?thesis
      unfolding if_not_P [OF False] by (rule abandoned)
  qed
  from caught agents rest show ?thesis
    unfolding Let_def by (intro conjI)
qed

theorem fallback_order_and_abandonment_witness:
  "\<not> isUnrecoverable (message_or_empty terminated_error) \<and>
   isSessionTerminatedError terminated_error \<and>
   fallback_agents_started
     (trace (runFallbackForTerminatedSession openRouter_only True example_world)) =
     [OpenRouterAgent] \<and>
   registry (runFallbackForTerminatedSession openRouter_only True example_world) = {7} \<and>
   fallback_agents_started
     (trace (runFallbackForTerminatedSession no_fallback True example_world)) = [] \<and>
   7 \<notin> registry (runFallbackForTerminatedSession no_fallback True example_world) \<and>
   no_pending_work 7 (db (runFallbackForTerminatedSession no_fallback True example_world))"
  using fallback_order_and_abandonment [of terminated_error openRouter_only example_world]
    fallback_order_and_abandonment [of terminated_error no_fallback example_world]
    terminated_error_class
  by (simp add: Let_def openRouter_only_simps no_fallback_simps quiet_run_simps example_world_simps)

text \<open>
  Gemini is unavailable and OpenRouter is not started, because it is unavailable too.
\<close>

theorem openRouter_unavailable_counterexample:
  "\<not> fallback_isGeminiAvailable no_fallback \<and>
   OpenRouterAgent \<notin> set (fallback_agents_started
      (trace (runFallbackForTerminatedSession no_fallback True example_world)))"
  by (simp add: runFallback_agents no_fallback_simps example_world_simps)

subsection \<open>The recovery pass\<close>

lemma recover_sessions_keeps:
  "service_db (snd (recover_sessions n f ids (res, sv))) = service_db sv \<and>
   initializationCompleteFlag (snd (recover_sessions n f ids (res, sv))) = initializationCompleteFlag sv"
  by (induction ids arbitrary: res sv) simp_all

lemma processPendingQueues_db:
  "service_db (snd (processPendingQueues n renv sv)) =
     cleanupStaleSessions (cleanup renv) (service_db sv)"
  by (simp add: processPendingQueues_def Let_def recover_sessions_keeps)

lemma processPendingQueues_flag:
  "initializationCompleteFlag (snd (processPendingQueues n renv sv)) = initializationCompleteFlag sv"
  by (simp add: processPendingQueues_def Let_def recover_sessions_keeps)

lemma stale_in_staleSessionIds:
  "i < length (sdk_sessions d) \<Longrightarrow> stale_session th (sdk_sessions d ! i) \<Longrightarrow>
   session_id (sdk_sessions d ! i) \<in> set (staleSessionIds th d)"
  by (force simp: staleSessionIds_def stale_session_def)

lemma cleanupStaleSessions_no_fault:
  "db_fault cl = None \<Longrightarrow>
   cleanupStaleSessions cl d =
     (let ids = staleSessionIds (int (now_threshold cl) - STALE_SESSION_THRESHOLD_MS) d in
      if ids = [] then d
      else failPendingMessages (int (now_messages cl)) ids (failSessions (int (now_sessions cl)) ids d))"
  by (simp add: cleanupStaleSessions_def Let_def)

lemma example_service_db: "service_db example_service = example_db"
  by (simp add: example_service_def)

text \<open>
  C7. In a recovery pass whose three statements on the store succeed, every session that
  is active and started more than 6 hours (21600000 ms) before the pass read the clock has
  its status set to failed and its completion time set, and every message of such a
  session that is pending has its status set to failed (it does not stay or become
  pending) and its failure time set. No row is added or removed.
\<close>

theorem stale_sessions_and_pending_messages_failed:
  assumes "db_fault (cleanup renv) = None"
    and "i < length (sdk_sessions (service_db sv))"
    and "stale_session (int (now_threshold (cleanup renv)) - 21600000) (sdk_sessions (service_db sv) ! i)"
  shows "let d = service_db sv;
             d' = service_db (snd (processPendingQueues sessionLimit renv sv));
             r = sdk_sessions d ! i
         in STALE_SESSION_THRESHOLD_MS = 21600000 \<and>
            length (sdk_sessions d') = length (sdk_sessions d) \<and>
            length (pending_messages d') = length (pending_messages d) \<and>
            sdk_sessions d' ! i =
              r\<lparr>session_status := ''failed'',
                completed_at_epoch := Some (int (now_sessions (cleanup renv)))\<rparr> \<and>
            (\<forall>j < length (pending_messages d).
               message_status (pending_messages d ! j) = ''pending'' \<and>
               session_db_id (pending_messages d ! j) = session_id r \<longrightarrow>
               pending_messages d' ! j =
                 (pending_messages d ! j)
                   \<lparr>message_status := ''failed'',
                    failed_at_epoch := Some (int (now_messages (cleanup renv)))\<rparr>)"
proof -
  let ?d = "service_db sv"
  let ?cl = "cleanup renv"
  let ?ids = "staleSessionIds (int (now_threshold ?cl) - STALE_SESSION_THRESHOLD_MS) ?d"
  have th: "STALE_SESSION_THRESHOLD_MS = 21600000"
    by (simp add: STALE_SESSION_THRESHOLD_MS_def)
  have mem: "session_id (sdk_sessions ?d ! i) \<in> set ?ids"
    using assms(2,3) by (simp add: th stale_in_staleSessionIds)
  then have ne: "?ids \<noteq> []" by auto
  have d': "service_db (snd (processPendingQueues sessionLimit renv sv)) =
      failPendingMessages (int (now_messages ?cl)) ?ids (failSessions (int (now_sessions ?cl)) ?ids ?d)"
    using assms(1) ne by (simp add: processPendingQueues_db cleanupStaleSessions_no_fault Let_def)
  have s: "sdk_sessions (failPendingMessages (int (now_messages ?cl)) ?ids
              (failSessions (int (now_sessions ?cl)) ?ids ?d)) ! i =
           (sdk_sessions ?d ! i)\<lparr>session_status := ''failed'',
                completed_at_epoch := Some (int (now_sessions ?cl))\<rparr>"
    using assms(2) mem by (simp add: failPendingMessages_def failSessions_def)
  have m: "pending_messages (failPendingMessages (int (now_messages ?cl)) ?ids
              (failSessions (int (now_sessions ?cl)) ?ids ?d)) ! j =
           (pending_messages ?d ! j)\<lparr>message_status := ''failed'',
                    failed_at_epoch := Some (int (now_messages ?cl))\<rparr>"
    if "j < length (pending_messages ?d)"
      and "message_status (pending_messages ?d ! j) = ''pending''"
      and "session_db_id (pending_messages ?d ! j) = session_id (sdk_sessions ?d ! i)" for j
    using that mem by (simp add: failPendingMessages_def failSessions_def)
  have l: "length (sdk_sessions (failPendingMessages (int (now_messages ?cl)) ?ids
              (failSessions (int (now_sessions ?cl)) ?ids ?d))) = length (sdk_sessions ?d)"
    "length (pending_messages (failPendingMessages (int (now_messages ?cl)) ?ids
              (failSessions (int (now_sessions ?cl)) ?ids ?d))) = length (pending_messages ?d)"
    by (simp_all add: failPendingMessages_def failSessions_def)
  show ?thesis
    unfolding Let_def d' using th s m l by blast
qed

theorem stale_sessions_and_pending_messages_failed_witness:
  "db_fault (cleanup example_recovery) = None \<and>
   stale_session (int (now_threshold (cleanup example_recovery)) - 21600000)
     (sdk_sessions (service_db example_service) ! 0) \<and>
   message_status (pending_messages (service_db example_service) ! 0) = ''pending'' \<and>
   session_status (sdk_sessions (service_db (snd (processPendingQueues 50 example_recovery example_service))) ! 0)
     = ''failed'' \<and>
   message_status (pending_messages (service_db (snd (processPendingQueues 50 example_recovery example_service))) ! 0)
     = ''failed''"
  using stale_sessions_and_pending_messages_failed [of example_recovery 0 example_service 50]
  by (simp add: Let_def example_recovery_def seven_hours_later_def example_service_db example_db_def
      stale_session_def)

subsection \<open>The start of the process\<close>

lemma recover_sessions_trace:
  "\<exists>new. service_trace (snd (recover_sessions n f ids (res, sv))) = service_trace sv @ new"
proof (induction ids arbitrary: res sv)
  case Nil
  show ?case by simp
next
  case (Cons sid ids)
  obtain new where new: "service_trace (snd (recover_sessions n f ids
      (res\<lparr>sessionsStarted := sessionsStarted res + 1,
           startedSessionIds := startedSessionIds res @ [sid]\<rparr>,
       sv\<lparr>generator_attached := (generator_attached sv)(sid := True),
          service_trace := service_trace sv @ [StartSessionProcessor sid ''startup-recovery'']\<rparr>))) =
      service_trace (sv\<lparr>generator_attached := (generator_attached sv)(sid := True),
          service_trace := service_trace sv @ [StartSessionProcessor sid ''startup-recovery'']\<rparr>) @ new"
    using Cons.IH by blast
  obtain new' where new': "service_trace (snd (recover_sessions n f ids
      (res\<lparr>sessionsSkipped := sessionsSkipped res + 1\<rparr>, sv))) = service_trace sv @ new'"
    using Cons.IH by blast
  show ?case
    using new new' by auto
qed

lemma processPendingQueues_trace:
  "\<exists>new. service_trace (snd (processPendingQueues n renv sv)) = service_trace sv @ new"
proof -
  obtain new where "service_trace (snd (recover_sessions n (initializeSession_fails renv)
        (sessions_with_pending renv)
        (\<lparr>totalPendingSessions = length (sessions_with_pending renv), sessionsStarted = 0,
          sessionsSkipped = 0, startedSessionIds = []\<rparr>,
         sv\<lparr>service_db := cleanupStaleSessions (cleanup renv) (service_db sv)\<rparr>))) =
      service_trace (sv\<lparr>service_db := cleanupStaleSessions (cleanup renv) (service_db sv)\<rparr>) @ new"
    using recover_sessions_trace by blast
  then show ?thesis
    by (simp add: processPendingQueues_def Let_def)
qed

lemma reset_all_no_processing:
  "list_all (\<lambda>m. message_status m \<noteq> ''processing'')
     (pending_messages (resetStaleProcessingMessages 0 now d))"
proof -
  have "list_all (\<lambda>m. message_status m \<noteq> ''processing'')
          (map (\<lambda>m. if message_status m = ''processing''
                    then m\<lparr>message_status := ''pending'', started_processing_at_epoch := None\<rparr>
                    else m) ms)" for ms
    by (induction ms) simp_all
  then show ?thesis
    by (simp add: resetStaleProcessingMessages_def)
qed

lemma reset_all_statuses:
  "map message_status (pending_messages (resetStaleProcessingMessages 0 now d)) =
     map (\<lambda>m. if message_status m = ''processing'' then ''pending'' else message_status m)
       (pending_messages d)"
  by (simp add: resetStaleProcessingMessages_def)

lemma failPendingMessages_no_processing:
  "list_all (\<lambda>m. message_status m \<noteq> ''processing'') (pending_messages d) \<Longrightarrow>
   list_all (\<lambda>m. message_status m \<noteq> ''processing'') (pending_messages (failPendingMessages now ids d))"
proof -
  have "list_all (\<lambda>m. message_status m \<noteq> ''processing'') ms \<Longrightarrow>
        list_all (\<lambda>m. message_status m \<noteq> ''processing'')
          (map (\<lambda>m. if message_status m = ''pending'' \<and> session_db_id m \<in> set ids
                    then m\<lparr>message_status := ''failed'', failed_at_epoch := Some now\<rparr> else m) ms)" for ms
    by (induction ms) simp_all
  then show "list_all (\<lambda>m. message_status m \<noteq> ''processing'') (pending_messages d) \<Longrightarrow>
   list_all (\<lambda>m. message_status m \<noteq> ''processing'') (pending_messages (failPendingMessages now ids d))"
    by (simp add: failPendingMessages_def)
qed

lemma cleanup_no_processing:
  assumes "list_all (\<lambda>m. message_status m \<noteq> ''processing'') (pending_messages d)"
  shows "list_all (\<lambda>m. message_status m \<noteq> ''processing'') (pending_messages (cleanupStaleSessions cl d))"
proof -
  have "list_all (\<lambda>m. message_status m \<noteq> ''processing'') (pending_messages (failSessions now ids d))"
    for now ids
    using assms by (simp add: failSessions_def)
  then show ?thesis
    using assms by (simp add: cleanupStaleSessions_def Let_def failPendingMessages_no_processing)
qed

text \<open>
  C6. Among the calls \<^verbatim>\<open>initializeBackground\<close> makes, no session processor is
  started before the reset of processing messages with threshold 0. If a step before the
  reset throws, nothing is reset and no processor is started. Otherwise the reset is the
  first call; it turns every processing message into a pending one and changes no other
  status, so no message is processing afterwards; and the recovery pass, which starts the
  processors, comes after it. The flag the guard of the \<^verbatim>\<open>/api\<close> routes waits
  for (\<^verbatim>\<open>initializationCompleteFlag\<close>) is set only after the reset has run. The
  route handlers themselves are not among the sources.
\<close>

theorem reset_precedes_session_processors:
  "let sv' = snd (initializeBackground ienv sv);
       new = drop (length (service_trace sv)) (service_trace sv');
       no_reset = (fails_at ienv CleanupOrphanedProcesses \<or> fails_at ienv LoadMode \<or>
                   fails_at ienv InitializeDatabase \<or> fails_at ienv ResetStaleProcessing)
   in reset_before_processors new \<and>
      (if no_reset
       then new = [] \<and> service_db sv' = service_db sv
       else (\<exists>later. new = ResetStaleProcessingMessages 0 # later) \<and>
            list_all (\<lambda>m. message_status m \<noteq> ''processing'') (pending_messages (service_db sv')) \<and>
            service_db sv' =
              (let reset = resetStaleProcessingMessages 0 (int (init_now ienv)) (service_db sv)
               in if fails_at ienv InitializeSearch \<or> fails_at ienv ConnectMcp \<or>
                     fails_at ienv StartReaper
                  then reset
                  else cleanupStaleSessions (cleanup (recovery ienv)) reset) \<and>
            map message_status
              (pending_messages (resetStaleProcessingMessages 0 (int (init_now ienv)) (service_db sv))) =
              map (\<lambda>m. if message_status m = ''processing'' then ''pending'' else message_status m)
                (pending_messages (service_db sv))) \<and>
      initializationCompleteFlag sv' =
        (initializationCompleteFlag sv \<or>
         \<not> (no_reset \<or> fails_at ienv InitializeSearch \<or> fails_at ienv ConnectMcp))"
proof (cases "fails_at ienv CleanupOrphanedProcesses \<or> fails_at ienv LoadMode \<or>
          fails_at ienv InitializeDatabase \<or> fails_at ienv ResetStaleProcessing")
  case True
  then have "snd (initializeBackground ienv sv) = sv"
    by (simp add: initializeBackground_def)
  with True show ?thesis by (simp add: Let_def)
next
  case False
  let ?d1 = "resetStaleProcessingMessages 0 (int (init_now ienv)) (service_db sv)"
  let ?sv1 = "sv\<lparr>service_db := ?d1,
                service_trace := service_trace sv @ [ResetStaleProcessingMessages 0]\<rparr>"
  let ?sv3 = "?sv1\<lparr>mcpReady := True, initializationCompleteFlag := True,
                   service_trace := service_trace ?sv1 @ [StartOrphanReaper]\<rparr>"
  obtain new where new: "service_trace (snd (processPendingQueues 50 (recovery ienv) ?sv3)) =
      service_trace ?sv3 @ new"
    using processPendingQueues_trace by blast
  have np: "list_all (\<lambda>m. message_status m \<noteq> ''processing'')
      (pending_messages (service_db (snd (processPendingQueues 50 (recovery ienv) ?sv3))))"
    by (simp add: processPendingQueues_db cleanup_no_processing reset_all_no_processing)
  have np1: "list_all (\<lambda>m. message_status m \<noteq> ''processing'') (pending_messages ?d1)"
    by (rule reset_all_no_processing)
  have fl: "initializationCompleteFlag (snd (processPendingQueues 50 (recovery ienv) ?sv3))"
    by (simp add: processPendingQueues_flag)
  have "(\<exists>later. drop (length (service_trace sv)) (service_trace (snd (initializeBackground ienv sv)))
            = ResetStaleProcessingMessages 0 # later) \<and>
        list_all (\<lambda>m. message_status m \<noteq> ''processing'')
          (pending_messages (service_db (snd (initializeBackground ienv sv)))) \<and>
        initializationCompleteFlag (snd (initializeBackground ienv sv)) =
          (initializationCompleteFlag sv \<or>
           \<not> (fails_at ienv InitializeSearch \<or> fails_at ienv ConnectMcp))"
    using False new np np1 fl by (simp add: initializeBackground_def Let_def)
  then obtain later where later: "drop (length (service_trace sv)) (service_trace (snd (initializeBackground ienv sv)))
            = ResetStaleProcessingMessages 0 # later"
    and all: "list_all (\<lambda>m. message_status m \<noteq> ''processing'')
          (pending_messages (service_db (snd (initializeBackground ienv sv))))"
    and flag: "initializationCompleteFlag (snd (initializeBackground ienv sv)) =
          (initializationCompleteFlag sv \<or>
           \<not> (fails_at ienv InitializeSearch \<or> fails_at ienv ConnectMcp))"
    by blast
  have dbs: "service_db (snd (initializeBackground ienv sv)) =
      (if fails_at ienv InitializeSearch \<or> fails_at ienv ConnectMcp \<or> fails_at ienv StartReaper
       then ?d1 else cleanupStaleSessions (cleanup (recovery ienv)) ?d1)"
    using False by (simp add: initializeBackground_def Let_def processPendingQueues_db)
  have "reset_before_processors (ResetStaleProcessingMessages 0 # later)" by simp
  with False later all flag dbs show ?thesis
    by (simp add: Let_def reset_all_statuses)
qed

theorem reset_precedes_session_processors_witness:
  "service_trace (snd (initializeBackground clean_start crashed_service)) =
     [ResetStaleProcessingMessages 0, StartOrphanReaper, StartSessionProcessor 7 ''startup-recovery''] \<and>
   reset_before_processors (service_trace (snd (initializeBackground clean_start crashed_service))) \<and>
   map message_status (pending_messages (service_db crashed_service)) =
     [''processed'', ''processing'', ''pending''] \<and>
   map message_status (pending_messages (service_db (snd (initializeBackground clean_start crashed_service)))) =
     [''processed'', ''pending'', ''pending''] \<and>
   initializationCompleteFlag (snd (initializeBackground clean_start crashed_service))"
  using reset_precedes_session_processors [of clean_start crashed_service]
  by (simp add: Let_def initializeBackground_def fails_at_def clean_start_def crashed_service_def
      example_service_def example_recovery_def processPendingQueues_def crashed_db_def
      resetStaleProcessingMessages_def cleanupStaleSessions_def seven_hours_later_def
      staleSessionIds_def STALE_SESSION_THRESHOLD_MS_def)

subsection \<open>The identifier is persisted before any insert\<close>

lemma push_history_simps [simp]:
  "trace (push_history r c w) = trace w"
  "db (push_history r c w) = db w"
  "memorySessionId (session (push_history r c w)) = memorySessionId (session w)"
  by (simp_all add: push_history_def)

lemma queryCodexWithHistory_simps [simp]:
  "trace (queryCodexWithHistory cenv w) =
     trace w @ [RunCodex (truncateHistory (js_parseInt cenv) (settings_from cenv)
                            (conversationHistory (session w)))]"
  "session (queryCodexWithHistory cenv w) = session w"
  "db (queryCodexWithHistory cenv w) = db w"
  by (simp_all add: queryCodexWithHistory_def)

lemma processAgentResponse_simps [simp]:
  "trace (processAgentResponse t w) = trace w @ [ProcessAgentResponse (memorySessionId (session w)) t]"
  "session (processAgentResponse t w) = session w"
  "db (processAgentResponse t w) = db w"
  by (simp_all add: processAgentResponse_def)















end
